theory Spec2Isabelle
  imports Main "HOL-Library.Sublist"
begin

section \<open>JavaScript values, strings and thrown errors\<close>

text \<open>
  The development embeds \<^verbatim>\<open>src/lib/merge.js\<close>. A JavaScript string is a \<open>string\<close>
  here: a list of code units below 256. A property that may be missing, \<^verbatim>\<open>null\<close> or a
  string is a \<open>jsval\<close>.
\<close>

datatype jsval = Undefined | Null | Str string

text \<open>\<^verbatim>\<open>v == null\<close>: the loose comparison holds for \<^verbatim>\<open>null\<close> and \<^verbatim>\<open>undefined\<close> only.\<close>

definition loose_eq_null :: "jsval \<Rightarrow> bool" where
  "loose_eq_null v = (case v of Undefined \<Rightarrow> True | Null \<Rightarrow> True | Str _ \<Rightarrow> False)"

text \<open>
  \<^verbatim>\<open>Array.prototype.includes\<close> on an array of strings: only a string that is equal to an
  element is found.
\<close>

definition array_includes :: "string list \<Rightarrow> jsval \<Rightarrow> bool" where
  "array_includes xs v = (case v of Str s \<Rightarrow> s \<in> set xs | _ \<Rightarrow> False)"

text \<open>\<^verbatim>\<open>String.prototype.includes\<close>: the needle occurs at some position of the haystack.\<close>

fun string_includes :: "string \<Rightarrow> string \<Rightarrow> bool" where
  "string_includes [] needle = (needle = [])"
| "string_includes (c # cs) needle = (prefix needle (c # cs) \<or> string_includes cs needle)"

text \<open>
  An \<^verbatim>\<open>Error\<close> object, as the client library rejects with and as the code itself throws:
  only its \<^verbatim>\<open>message\<close> property is read.
\<close>

datatype js_error = Error (message: jsval)

text \<open>The three strings \<^verbatim>\<open>"success"\<close>, \<^verbatim>\<open>"failure"\<close>, \<^verbatim>\<open>"retry"\<close> that an attempt returns.\<close>

datatype outcome = Success | Failure | Retry

text \<open>Decimal digits of a number, as \<^verbatim>\<open>String(n)\<close> prints a non-negative integer.\<close>

definition digit_char :: "nat \<Rightarrow> char" where
  "digit_char d = char_of (48 + d)"

function string_of_nat :: "nat \<Rightarrow> string" where
  "string_of_nat n = (if n < 10 then [digit_char n] else string_of_nat (n div 10) @ [digit_char (n mod 10)])"
  by pat_completeness auto
termination
  by (relation "measure id") auto

section \<open>Pull requests, configuration and the remote service\<close>

record repo =
  full_name :: string
  repo_name :: string
  owner_login :: string

record branch_ref =
  repo :: repo
  sha :: string
  ref :: string

record label =
  label_name :: string

record pull_request =
  number :: nat
  title :: string
  body :: string
  state :: string
  merged :: bool
  mergeable_state :: jsval
  head :: branch_ref
  base :: branch_ref
  user_login :: string
  labels :: "label list"

record check_run =
  check_name :: string
  conclusion :: jsval

record review =
  review_state :: string

record branch =
  branch_name :: string
  protected :: bool

text \<open>
  \<^verbatim>\<open>context.config\<close>. An optional setting is \<open>None\<close> when it is not configured
  (\<^verbatim>\<open>undefined\<close> or \<^verbatim>\<open>null\<close>); \<^verbatim>\<open>mergeLabels\<close> is the object with the two lists
  \<^verbatim>\<open>blocking\<close> and \<^verbatim>\<open>required\<close>.
\<close>

record config =
  mergeForks :: bool
  mergeLabels_blocking :: "string list"
  mergeLabels_required :: "string list"
  mergeRequireStatuses :: "string list option"
  mergeRequireApproval :: bool
  mergeMethod :: string
  mergeCommitMessage :: string
  mergeCommitMessageRegex :: "string option"
  mergeFilterAuthor :: "string option"
  mergeRemoveLabels :: "string list"
  mergeRetries :: nat
  mergeRetrySleep :: nat
  mergeDeleteBranch :: bool
  failOnMergeSkip :: bool

text \<open>A string setting is truthy when it is configured and not empty.\<close>

definition truthy :: "string option \<Rightarrow> bool" where
  "truthy v = (case v of None \<Rightarrow> False | Some s \<Rightarrow> s \<noteq> [])"

text \<open>The requests the code sends to the remote service, with their parameters.\<close>

datatype call =
    PullsGet string string nat
  | PullsMerge string string nat jsval string string string
  | IssuesRemoveLabel string string nat string
  | ReposGetBranch string string string
  | GitDeleteRef string string string
  | GetCheckRuns string string string
  | GetReviews string string nat

fun is_merge_call :: "call \<Rightarrow> bool" where
  "is_merge_call (PullsMerge _ _ _ _ _ _ _) = True"
| "is_merge_call _ = False"

text \<open>
  The client \<^verbatim>\<open>octokit\<close>: each operation reads and changes the remote world \<open>'w\<close>
  and either rejects with an error or resolves with its data. The response to the check-run
  request carries \<^verbatim>\<open>check_runs\<close>, which may be missing.
\<close>

record 'w octokit =
  pulls_get :: "string \<Rightarrow> string \<Rightarrow> nat \<Rightarrow> 'w \<Rightarrow> (js_error + pull_request) \<times> 'w"
  pulls_merge :: "string \<Rightarrow> string \<Rightarrow> nat \<Rightarrow> jsval \<Rightarrow> string \<Rightarrow> string \<Rightarrow> string \<Rightarrow> 'w \<Rightarrow> (js_error + unit) \<times> 'w"
  issues_removeLabel :: "string \<Rightarrow> string \<Rightarrow> nat \<Rightarrow> string \<Rightarrow> 'w \<Rightarrow> (js_error + unit) \<times> 'w"
  repos_getBranch :: "string \<Rightarrow> string \<Rightarrow> string \<Rightarrow> 'w \<Rightarrow> (js_error + branch) \<times> 'w"
  git_deleteRef :: "string \<Rightarrow> string \<Rightarrow> string \<Rightarrow> 'w \<Rightarrow> (js_error + unit) \<times> 'w"
  request_check_runs :: "string \<Rightarrow> string \<Rightarrow> string \<Rightarrow> 'w \<Rightarrow> (js_error + check_run list option) \<times> 'w"
  request_reviews :: "string \<Rightarrow> string \<Rightarrow> nat \<Rightarrow> 'w \<Rightarrow> (js_error + review list) \<times> 'w"

text \<open>The object \<^verbatim>\<open>context\<close> with its two properties \<^verbatim>\<open>octokit\<close> and \<^verbatim>\<open>config\<close>.\<close>

record 'w merge_context =
  ctx_octokit :: "'w octokit"
  ctx_config :: config

section \<open>Effects: the remote world, the requests sent and the log\<close>

datatype level = Info | Debug | Trace

datatype log_arg =
    LStr string
  | LVal jsval
  | LNum nat
  | LNames "string list"
  | LPull pull_request
  | LBranch branch
  | LChecks "check_run list"
  | LReviews "review list"

record 'w st =
  world :: 'w
  calls :: "call list"
  logs :: "(level \<times> log_arg list) list"

text \<open>
  An asynchronous function of the source is a function from the state to a result and the
  new state; a thrown error (a rejected promise) is \<open>Inl\<close>.
\<close>

type_synonym ('a, 'w) io = "'w st \<Rightarrow> (js_error + 'a) \<times> 'w st"

definition io_return :: "'a \<Rightarrow> ('a, 'w) io" where
  "io_return x s = (Inr x, s)"

definition io_throw :: "js_error \<Rightarrow> ('a, 'w) io" where
  "io_throw e s = (Inl e, s)"

definition io_bind :: "('a, 'w) io \<Rightarrow> ('a \<Rightarrow> ('b, 'w) io) \<Rightarrow> ('b, 'w) io" where
  "io_bind m f s = (case m s of (Inl e, s') \<Rightarrow> (Inl e, s') | (Inr x, s') \<Rightarrow> f x s')"

definition io_catch :: "('a, 'w) io \<Rightarrow> (js_error \<Rightarrow> ('a, 'w) io) \<Rightarrow> ('a, 'w) io" where
  "io_catch m h s = (case m s of (Inl e, s') \<Rightarrow> h e s' | (Inr x, s') \<Rightarrow> (Inr x, s'))"

text \<open>
  Modelled from the spec: \<^verbatim>\<open>logger\<close> of \<^verbatim>\<open>./common\<close> is not among the sources; the spec
  describes logging as an observability sink. A call \<^verbatim>\<open>logger.info(a, b)\<close> appends the
  entry \<open>(Info, [a, b])\<close> to the log and never throws.
\<close>

definition logger :: "level \<Rightarrow> log_arg list \<Rightarrow> (unit, 'w) io" where
  "logger lv args s = (Inr (), s\<lparr>logs := logs s @ [(lv, args)]\<rparr>)"

text \<open>Sending a request: the service answers from its world, and the request is recorded.\<close>

definition remote :: "call \<Rightarrow> ('w \<Rightarrow> (js_error + 'a) \<times> 'w) \<Rightarrow> ('a, 'w) io" where
  "remote c f s = (case f (world s) of (r, w') \<Rightarrow> (r, s\<lparr>world := w', calls := calls s @ [c]\<rparr>))"

section \<open>Readiness classification\<close>

definition MAYBE_READY :: "string list" where
  "MAYBE_READY = [''clean'', ''has_hooks'', ''unknown'', ''unstable'']"

definition NOT_READY :: "string list" where
  "NOT_READY = [''dirty'', ''draft'']"

definition checkReady :: "pull_request \<Rightarrow> (outcome, 'w) io" where
  "checkReady pullRequest =
     (if loose_eq_null (mergeable_state pullRequest) \<or> array_includes MAYBE_READY (mergeable_state pullRequest)
      then io_bind (logger Info [LStr ''PR is probably ready: mergeable_state:'', LVal (mergeable_state pullRequest)])
             (\<lambda>_. io_return Success)
      else if array_includes NOT_READY (mergeable_state pullRequest)
      then io_bind (logger Info [LStr ''PR not ready: mergeable_state:'', LVal (mergeable_state pullRequest)])
             (\<lambda>_. io_return Failure)
      else io_bind (logger Info [LStr ''Current PR status: mergeable_state:'', LVal (mergeable_state pullRequest)])
             (\<lambda>_. io_return Retry))"

section \<open>Classification of a failed merge call\<close>

text \<open>
  \<^verbatim>\<open>const m = e ? e.message || "" : ""\<close>: the argument is \<open>None\<close> when the thrown value is
  falsy; a missing, \<^verbatim>\<open>null\<close> or empty message gives the empty string.
\<close>

definition error_text :: "js_error option \<Rightarrow> string" where
  "error_text e = (case e of None \<Rightarrow> [] | Some err \<Rightarrow> (case message err of Str s \<Rightarrow> s | _ \<Rightarrow> []))"

definition checkMergeError :: "js_error option \<Rightarrow> (outcome, 'w) io" where
  "checkMergeError e =
     (let m = error_text e in
      if string_includes m ''review is required by reviewers with write access'' \<or>
         string_includes m ''reviews are required by reviewers with write access''
      then io_bind (logger Info [LStr ''Cannot merge PR:'', LStr m]) (\<lambda>_. io_return Failure)
      else io_bind (logger Info [LStr ''Failed to merge PR:'', LStr m]) (\<lambda>_. io_return Retry))"

section \<open>Commit message composition\<close>

text \<open>
  The template branch of \<^verbatim>\<open>getCommitMessage\<close> calls
  \<^verbatim>\<open>mergeCommitMessage.replace(new RegExp(`{pullRequest.${prProp}}`, "g"), pullRequest[prProp])\<close>.
  In such a pattern a brace that starts no quantifier and the letters stand for themselves,
  and the dot stands for any character but a line terminator (the flag \<^verbatim>\<open>s\<close> is not set).
\<close>

datatype atom = Lit char | AnyChar

definition is_line_terminator :: "char \<Rightarrow> bool" where
  "is_line_terminator c = (c = CHR 0x0A \<or> c = CHR 0x0D)"

fun atom_matches :: "atom \<Rightarrow> char \<Rightarrow> bool" where
  "atom_matches (Lit a) c = (a = c)"
| "atom_matches AnyChar c = (\<not> is_line_terminator c)"

definition placeholder_regex :: "string \<Rightarrow> atom list" where
  "placeholder_regex prProp =
     map (\<lambda>c. if c = CHR ''.'' then AnyChar else Lit c) (''{pullRequest.'' @ prProp @ ''}'')"

text \<open>A match of the pattern at the start of the input: the matched text and the rest.\<close>

fun match_atoms :: "atom list \<Rightarrow> string \<Rightarrow> (string \<times> string) option" where
  "match_atoms [] s = Some ([], s)"
| "match_atoms (a # as) [] = None"
| "match_atoms (a # as) (c # cs) =
     (if atom_matches a c
      then (case match_atoms as cs of None \<Rightarrow> None | Some (m, rest) \<Rightarrow> Some (c # m, rest))
      else None)"

text \<open>
  The replacement is a string, so \<^verbatim>\<open>replace\<close> expands it (\<^verbatim>\<open>GetSubstitution\<close>): with no
  capturing group in the pattern, \<^verbatim>\<open>$$\<close> gives a dollar sign, \<^verbatim>\<open>$&\<close> the matched text,
  a dollar sign before a backquote the text before the match, a dollar sign before a quote
  the text after it; every other character is copied.
\<close>

fun get_substitution :: "string \<Rightarrow> string \<Rightarrow> string \<Rightarrow> string \<Rightarrow> string" where
  "get_substitution [] passed matched rest = []"
| "get_substitution [c] passed matched rest = [c]"
| "get_substitution (c # d # r) passed matched rest =
     (if c = CHR 0x24 \<and> d = CHR 0x24 then CHR 0x24 # get_substitution r passed matched rest
      else if c = CHR 0x24 \<and> d = CHR 0x26 then matched @ get_substitution r passed matched rest
      else if c = CHR 0x24 \<and> d = CHR 0x60 then passed @ get_substitution r passed matched rest
      else if c = CHR 0x24 \<and> d = CHR 0x27 then rest @ get_substitution r passed matched rest
      else c # get_substitution (d # r) passed matched rest)"

lemma match_atoms_splits: "match_atoms p s = Some (m, rest) \<Longrightarrow> s = m @ rest"
  by (induction p s arbitrary: m rest rule: match_atoms.induct) (auto split: if_splits option.splits)

text \<open>
  Replacement of every match, scanning from the left (\<open>passed\<close> is the text already
  passed); after an empty match the scan moves on by one character.
\<close>

function replace_global :: "atom list \<Rightarrow> string \<Rightarrow> string \<Rightarrow> string \<Rightarrow> string" where
  "replace_global p r passed s =
     (case match_atoms p s of
        Some (m, rest) \<Rightarrow>
          get_substitution r passed m rest @
            (if m = [] then (case s of [] \<Rightarrow> [] | c # cs \<Rightarrow> c # replace_global p r (passed @ [c]) cs)
             else replace_global p r (passed @ m) rest)
      | None \<Rightarrow> (case s of [] \<Rightarrow> [] | c # cs \<Rightarrow> c # replace_global p r (passed @ [c]) cs))"
  by pat_completeness auto
termination
  by (relation "measure (\<lambda>(p, r, passed, s). length s)") (auto dest: match_atoms_splits)

text \<open>\<^verbatim>\<open>pullRequest[prProp]\<close>, converted to a string as \<^verbatim>\<open>replace\<close> does.\<close>

definition pr_prop :: "pull_request \<Rightarrow> string \<Rightarrow> string" where
  "pr_prop pullRequest prProp =
     (if prProp = ''number'' then string_of_nat (number pullRequest)
      else if prProp = ''title'' then title pullRequest
      else if prProp = ''body'' then body pullRequest
      else ''undefined'')"

text \<open>The first parameter, \<^verbatim>\<open>mergeCommitMessage\<close> in the source, is \<open>template\<close> here.\<close>

definition getCommitMessage :: "string \<Rightarrow> pull_request \<Rightarrow> jsval" where
  "getCommitMessage template pullRequest =
     (if template = ''automatic'' then Undefined
      else if template = ''pull-request-title'' then Str (title pullRequest)
      else if template = ''pull-request-description'' then Str (body pullRequest)
      else if template = ''pull-request-title-and-description''
      then Str (title pullRequest @ [CHR 0x0A, CHR 0x0A] @ body pullRequest)
      else Str (foldl (\<lambda>msg prProp. replace_global (placeholder_regex prProp) (pr_prop pullRequest prProp) [] msg)
                  template [''number'', ''title'', ''body'']))"

section \<open>The retry runner\<close>

text \<open>
  Modelled from the spec: \<^verbatim>\<open>retry\<close> of \<^verbatim>\<open>./common\<close> is not among the sources. The spec
  (RetryRunner) gives it as \<^verbatim>\<open>run(maxAttempts, sleepMs, immediateAttempt, retryAttempt,
  onExhausted)\<close>: the immediate attempt decides on success (true) and failure (false); on retry
  the runner sleeps and runs the retry attempt, with the same three-way rule, up to
  \<^verbatim>\<open>maxAttempts\<close> attempts in total, the first included; when they are used up it calls
  \<^verbatim>\<open>onExhausted\<close> and returns false. Sleeping changes nothing the model observes. An error
  thrown by an attempt leaves the runner.
\<close>

fun retry_loop :: "nat \<Rightarrow> (outcome, 'w) io \<Rightarrow> (unit, 'w) io \<Rightarrow> (bool, 'w) io" where
  "retry_loop 0 retryAttempt onExhausted = io_bind onExhausted (\<lambda>_. io_return False)"
| "retry_loop (Suc n) retryAttempt onExhausted =
     io_bind retryAttempt (\<lambda>r.
       case r of Success \<Rightarrow> io_return True
       | Failure \<Rightarrow> io_return False
       | Retry \<Rightarrow> retry_loop n retryAttempt onExhausted)"

definition retry :: "nat \<Rightarrow> nat \<Rightarrow> (outcome, 'w) io \<Rightarrow> (outcome, 'w) io \<Rightarrow> (unit, 'w) io \<Rightarrow> (bool, 'w) io" where
  "retry maxAttempts sleepMs immediateAttempt retryAttempt onExhausted =
     io_bind immediateAttempt (\<lambda>r.
       case r of Success \<Rightarrow> io_return True
       | Failure \<Rightarrow> io_return False
       | Retry \<Rightarrow> retry_loop (maxAttempts - 1) retryAttempt onExhausted)"

section \<open>Requests to the remote service\<close>

text \<open>
  A parameter of the source whose name is a field of a record above carries a prime here
  (\<open>head'\<close>, \<open>mergeMethod'\<close>, \<open>mergeRetries'\<close>, \<open>mergeRetrySleep'\<close>, \<open>mergeRemoveLabels'\<close>).
\<close>

definition getPullRequest :: "'w octokit \<Rightarrow> pull_request \<Rightarrow> (pull_request, 'w) io" where
  "getPullRequest octokit pullRequest =
     io_bind (logger Debug [LStr ''Getting latest PR data...'']) (\<lambda>_.
     io_bind (remote
        (PullsGet (owner_login (repo (base pullRequest))) (repo_name (repo (base pullRequest))) (number pullRequest))
        (pulls_get octokit (owner_login (repo (base pullRequest))) (repo_name (repo (base pullRequest)))
           (number pullRequest))) (\<lambda>pr.
     io_bind (logger Trace [LStr ''PR:'', LPull pr]) (\<lambda>_.
     io_return pr)))"

definition mergePullRequest ::
  "'w octokit \<Rightarrow> pull_request \<Rightarrow> string \<Rightarrow> string \<Rightarrow> jsval \<Rightarrow> (outcome, 'w) io" where
  "mergePullRequest octokit pullRequest head' mergeMethod' commitMessage =
     io_catch
       (io_bind (remote
          (PullsMerge (owner_login (repo (base pullRequest))) (repo_name (repo (base pullRequest)))
             (number pullRequest) commitMessage [] head' mergeMethod')
          (pulls_merge octokit (owner_login (repo (base pullRequest))) (repo_name (repo (base pullRequest)))
             (number pullRequest) commitMessage [] head' mergeMethod')) (\<lambda>_.
        io_return Success))
       (\<lambda>e. checkMergeError (Some e))"

definition fetchChecks :: "'w merge_context \<Rightarrow> pull_request \<Rightarrow> (check_run list, 'w) io" where
  "fetchChecks ctx pullRequest =
     io_bind (logger Debug [LStr ''Getting check runs for'', LStr (sha (head pullRequest)), LStr ''...'']) (\<lambda>_.
     io_bind (remote
        (GetCheckRuns (owner_login (repo (base pullRequest))) (repo_name (repo (base pullRequest)))
           (sha (head pullRequest)))
        (request_check_runs (ctx_octokit ctx) (owner_login (repo (base pullRequest)))
           (repo_name (repo (base pullRequest))) (sha (head pullRequest)))) (\<lambda>response.
     let check_runs = (case response of None \<Rightarrow> [] | Some runs \<Rightarrow> runs) in
     io_bind (logger Trace [LStr ''Found checks:'', LChecks check_runs]) (\<lambda>_.
     io_return check_runs)))"

definition fetchReviews :: "'w merge_context \<Rightarrow> pull_request \<Rightarrow> (review list, 'w) io" where
  "fetchReviews ctx pullRequest =
     io_bind (logger Debug [LStr ''Getting reviews for'', LNum (number pullRequest), LStr ''...'']) (\<lambda>_.
     io_bind (remote
        (GetReviews (owner_login (repo (base pullRequest))) (repo_name (repo (base pullRequest)))
           (number pullRequest))
        (request_reviews (ctx_octokit ctx) (owner_login (repo (base pullRequest)))
           (repo_name (repo (base pullRequest))) (number pullRequest))) (\<lambda>response.
     io_bind (logger Trace [LStr ''Found reviews:'', LReviews response]) (\<lambda>_.
     io_return response)))"

section \<open>Waiting for readiness and merging, with retries\<close>

definition waitUntilReady :: "'w octokit \<Rightarrow> pull_request \<Rightarrow> nat \<Rightarrow> nat \<Rightarrow> (bool, 'w) io" where
  "waitUntilReady octokit pullRequest mergeRetries' mergeRetrySleep' =
     retry mergeRetries' mergeRetrySleep'
       (checkReady pullRequest)
       (io_bind (getPullRequest octokit pullRequest) (\<lambda>pr. checkReady pr))
       (logger Info [LStr (''PR not ready to be merged after '' @ string_of_nat mergeRetries' @ '' tries'')])"

definition tryMerge ::
  "'w octokit \<Rightarrow> pull_request \<Rightarrow> string \<Rightarrow> string \<Rightarrow> nat \<Rightarrow> nat \<Rightarrow> jsval \<Rightarrow> (bool, 'w) io" where
  "tryMerge octokit pullRequest head' mergeMethod' mergeRetries' mergeRetrySleep' commitMessage =
     retry mergeRetries' mergeRetrySleep'
       (mergePullRequest octokit pullRequest head' mergeMethod' commitMessage)
       (io_bind (getPullRequest octokit pullRequest) (\<lambda>pr.
          if merged pr then io_return Success
          else mergePullRequest octokit pullRequest head' mergeMethod' commitMessage))
       (logger Info [LStr (''PR could not be merged after '' @ string_of_nat mergeRetries' @ '' tries'')])"

section \<open>Cleanup after the merge\<close>

text \<open>The loop \<^verbatim>\<open>for (const name of labelNames)\<close> of \<^verbatim>\<open>removeLabels\<close>.\<close>

fun removeLabels_loop :: "'w octokit \<Rightarrow> pull_request \<Rightarrow> string list \<Rightarrow> (unit, 'w) io" where
  "removeLabels_loop octokit pullRequest [] = io_return ()"
| "removeLabels_loop octokit pullRequest (name # names) =
     io_bind (remote
        (IssuesRemoveLabel (owner_login (repo (base pullRequest))) (repo_name (repo (base pullRequest)))
           (number pullRequest) name)
        (issues_removeLabel octokit (owner_login (repo (base pullRequest)))
           (repo_name (repo (base pullRequest))) (number pullRequest) name)) (\<lambda>_.
     removeLabels_loop octokit pullRequest names)"

definition removeLabels :: "'w octokit \<Rightarrow> pull_request \<Rightarrow> string list \<Rightarrow> (unit, 'w) io" where
  "removeLabels octokit pullRequest mergeRemoveLabels' =
     (let labels' = filter (\<lambda>label. label_name label \<in> set mergeRemoveLabels') (labels pullRequest) in
      if length labels' < 1
      then logger Debug [LStr ''No labels to remove.'']
      else (let labelNames = map label_name labels' in
        io_bind (logger Debug [LStr ''Removing labels:'', LNames labelNames]) (\<lambda>_.
        io_bind (removeLabels_loop octokit pullRequest labelNames) (\<lambda>_.
        logger Info [LStr ''Removed labels:'', LNames labelNames]))))"

definition deleteBranch :: "'w octokit \<Rightarrow> pull_request \<Rightarrow> (unit, 'w) io" where
  "deleteBranch octokit pullRequest =
     (if full_name (repo (head pullRequest)) \<noteq> full_name (repo (base pullRequest))
      then logger Info [LStr ''Branch is from external repository, skipping delete'']
      else
        io_bind (remote
           (ReposGetBranch (owner_login (repo (head pullRequest))) (repo_name (repo (head pullRequest)))
              (ref (head pullRequest)))
           (repos_getBranch octokit (owner_login (repo (head pullRequest)))
              (repo_name (repo (head pullRequest))) (ref (head pullRequest)))) (\<lambda>branch.
        io_bind (logger Trace [LStr ''Branch:'', LBranch branch]) (\<lambda>_.
        if protected branch
        then logger Info [LStr ''Branch is protected and cannot be deleted:'', LStr (branch_name branch)]
        else
          io_bind (logger Debug [LStr ''Deleting branch'', LStr (branch_name branch), LStr ''...'']) (\<lambda>_.
          io_bind (remote
             (GitDeleteRef (owner_login (repo (head pullRequest))) (repo_name (repo (head pullRequest)))
                (''heads/'' @ branch_name branch))
             (git_deleteRef octokit (owner_login (repo (head pullRequest)))
                (repo_name (repo (head pullRequest))) (''heads/'' @ branch_name branch))) (\<lambda>_.
          logger Info [LStr ''Merged branch has been deleted:'', LStr (branch_name branch)])))))"

section \<open>Eligibility\<close>

text \<open>
  The loops of \<^verbatim>\<open>skipPullRequest\<close>, each threading the variable \<^verbatim>\<open>skip\<close>:
  over the labels of the pull request (blocking labels), over the required labels, and over
  the required check names with the inner loop over the fetched check runs.
\<close>

fun blocking_loop :: "string list \<Rightarrow> label list \<Rightarrow> bool \<Rightarrow> (bool, 'w) io" where
  "blocking_loop blocking [] skip = io_return skip"
| "blocking_loop blocking (label # rest) skip =
     (if label_name label \<in> set blocking
      then io_bind (logger Info [LStr ''Skipping PR merge, blocking label present:'', LStr (label_name label)]) (\<lambda>_.
           blocking_loop blocking rest True)
      else blocking_loop blocking rest skip)"

fun required_loop :: "string list \<Rightarrow> string list \<Rightarrow> bool \<Rightarrow> (bool, 'w) io" where
  "required_loop labelNames [] skip = io_return skip"
| "required_loop labelNames (required # rest) skip =
     (if required \<notin> set labelNames
      then io_bind (logger Info [LStr ''Skipping PR merge, required label missing:'', LStr required]) (\<lambda>_.
           required_loop labelNames rest True)
      else required_loop labelNames rest skip)"

text \<open>
  The inner loop returns \<^verbatim>\<open>foundStatus\<close> and \<^verbatim>\<open>skip\<close>. The comparison
  \<^verbatim>\<open>status.conclusion != 'success'\<close> holds for every conclusion but the string
  \<^verbatim>\<open>success\<close>, a \<^verbatim>\<open>null\<close> conclusion included.
\<close>

fun checks_loop :: "string \<Rightarrow> check_run list \<Rightarrow> bool \<Rightarrow> bool \<Rightarrow> (bool \<times> bool, 'w) io" where
  "checks_loop required [] foundStatus skip = io_return (foundStatus, skip)"
| "checks_loop required (status # rest) foundStatus skip =
     (if check_name status = required
      then (if conclusion status \<noteq> Str ''success''
            then io_bind (logger Info [LStr ''Skipping PR merge, required check'', LStr required,
                            LStr ''has conclusion'', LVal (conclusion status)]) (\<lambda>_.
                 checks_loop required rest True True)
            else checks_loop required rest True skip)
      else checks_loop required rest foundStatus skip)"

fun statuses_loop :: "check_run list \<Rightarrow> string list \<Rightarrow> bool \<Rightarrow> (bool, 'w) io" where
  "statuses_loop checks [] skip = io_return skip"
| "statuses_loop checks (required # rest) skip =
     io_bind (checks_loop required checks False skip) (\<lambda>(foundStatus, skip').
       if \<not> foundStatus
       then io_bind (logger Info [LStr ''Skipping PR merge, required check is absent:'', LStr required]) (\<lambda>_.
            statuses_loop checks rest True)
       else statuses_loop checks rest skip')"

fun count_approvals :: "review list \<Rightarrow> nat \<Rightarrow> nat" where
  "count_approvals [] numApprovals = numApprovals"
| "count_approvals (approval # rest) numApprovals =
     (if review_state approval = ''APPROVED'' then count_approvals rest (numApprovals + 1)
      else count_approvals rest numApprovals)"

definition skipPullRequest :: "'w merge_context \<Rightarrow> pull_request \<Rightarrow> (bool, 'w) io" where
  "skipPullRequest ctx pullRequest =
     io_bind (if state pullRequest \<noteq> ''open''
              then io_bind (logger Info [LStr ''Skipping PR merge, state is not open:'', LStr (state pullRequest)])
                     (\<lambda>_. io_return True)
              else io_return False) (\<lambda>skip1.
     io_bind (if merged pullRequest
              then io_bind (logger Info [LStr ''Skipping PR merge, already merged!'']) (\<lambda>_. io_return True)
              else io_return skip1) (\<lambda>skip2.
     io_bind (if full_name (repo (head pullRequest)) \<noteq> full_name (repo (base pullRequest))
              then (if \<not> mergeForks (ctx_config ctx)
                    then io_bind (logger Info [LStr ''PR is a fork and MERGE_FORKS is false, skipping merge''])
                           (\<lambda>_. io_return True)
                    else io_return skip2)
              else io_return skip2) (\<lambda>skip3.
     io_bind (blocking_loop (mergeLabels_blocking (ctx_config ctx)) (labels pullRequest) skip3) (\<lambda>skip4.
     io_bind (required_loop (map label_name (labels pullRequest)) (mergeLabels_required (ctx_config ctx)) skip4)
       (\<lambda>skip5.
     io_bind (case mergeRequireStatuses (ctx_config ctx) of
                None \<Rightarrow> io_return skip5
              | Some requiredNames \<Rightarrow>
                  io_bind (fetchChecks ctx pullRequest) (\<lambda>checks. statuses_loop checks requiredNames skip5))
       (\<lambda>skip6.
     if mergeRequireApproval (ctx_config ctx)
     then io_bind (fetchReviews ctx pullRequest) (\<lambda>approvals.
            if count_approvals approvals 0 = 0
            then io_bind (logger Info [LStr ''Skipping PR merge, require approval but none found''])
                   (\<lambda>_. io_return True)
            else io_bind (logger Debug [LStr ''Found'', LNum (count_approvals approvals 0), LStr ''approval(s)''])
                   (\<lambda>_. io_return skip6))
     else io_return skip6))))))"

section \<open>Extraction of the commit message body\<close>

text \<open>
  \<^verbatim>\<open>new RegExp(pattern, flags).exec(input)\<close> belongs to the JavaScript runtime. Its result is
  a syntax error thrown by the constructor, \<^verbatim>\<open>null\<close>, or the array of the match: the
  matched text first, then one entry per capturing group, \<^verbatim>\<open>undefined\<close> (\<open>None\<close>) for a
  group that took no part in the match. The engine is a parameter of \<^verbatim>\<open>merge\<close>.
\<close>

datatype exec_result = RegExpSyntaxError js_error | NoMatch | Match "string option list"

type_synonym regexp_engine = "string \<Rightarrow> string \<Rightarrow> string \<Rightarrow> exec_result"

text \<open>\<^verbatim>\<open>m[1]\<close>: \<^verbatim>\<open>undefined\<close> when the array has one entry only.\<close>

definition first_group :: "string option list \<Rightarrow> string option" where
  "first_group m = (case m of [] \<Rightarrow> None | [whole] \<Rightarrow> None | whole # g # _ \<Rightarrow> g)"

text \<open>\<^verbatim>\<open>String.prototype.trim\<close>: white space and line terminators, among the code units below 256.\<close>

definition is_js_space :: "char \<Rightarrow> bool" where
  "is_js_space c = (c \<in> {CHR 0x09, CHR 0x0A, CHR 0x0B, CHR 0x0C, CHR 0x0D, CHR 0x20, CHR 0xA0})"

definition js_trim :: "string \<Rightarrow> string" where
  "js_trim s = rev (dropWhile is_js_space (rev (dropWhile is_js_space s)))"

text \<open>
  Lines 43 to 54 of \<^verbatim>\<open>merge\<close>: the block that rewrites \<^verbatim>\<open>pullRequest.body\<close>. It returns
  the pull request as the rest of \<^verbatim>\<open>merge\<close> sees it. The flags are \<^verbatim>\<open>"sm"\<close>.
\<close>

definition quote :: "string \<Rightarrow> string" where
  "quote s = [CHR 0x27] @ s @ [CHR 0x27]"

definition rewrite_body :: "regexp_engine \<Rightarrow> string option \<Rightarrow> pull_request \<Rightarrow> (pull_request, 'w) io" where
  "rewrite_body regexp_exec regex pullRequest =
     (case regex of
        None \<Rightarrow> io_return pullRequest
      | Some pattern \<Rightarrow>
          if pattern = [] then io_return pullRequest
          else (case regexp_exec pattern ''sm'' (body pullRequest) of
                  RegExpSyntaxError e \<Rightarrow> io_throw e
                | NoMatch \<Rightarrow> io_return pullRequest
                | Match m \<Rightarrow>
                    (case first_group m of
                       None \<Rightarrow> io_throw (Error (Str
                         (''MERGE_COMMIT_MESSAGE_REGEX must contain a capturing subgroup: '' @ quote pattern)))
                     | Some g \<Rightarrow> io_return (pullRequest\<lparr>body := js_trim g\<rparr>))))"

section \<open>The merge operation\<close>

text \<open>
  \<^verbatim>\<open>merge\<close> returns a boolean and may have assigned \<^verbatim>\<open>pullRequest.body\<close>: the model
  returns the boolean together with the pull request object as the caller finds it.
\<close>

definition skipped_error :: js_error where
  "skipped_error = Error (Str (''Pull request is skipped with FAIL_ON_MERGE_SKIP set to '' @ quote ''true'' @ ''.''))"

definition merge :: "regexp_engine \<Rightarrow> 'w merge_context \<Rightarrow> pull_request \<Rightarrow> (bool \<times> pull_request, 'w) io" where
  "merge regexp_exec ctx pullRequest =
     io_bind (skipPullRequest ctx pullRequest) (\<lambda>skip.
     if skip
     then (if failOnMergeSkip (ctx_config ctx) then io_throw skipped_error
           else io_return (False, pullRequest))
     else
     io_bind (logger Info [LStr (''Merging PR #'' @ string_of_nat (number pullRequest) @ '' '' @ title pullRequest)])
       (\<lambda>_.
     io_bind (waitUntilReady (ctx_octokit ctx) pullRequest (mergeRetries (ctx_config ctx))
                (mergeRetrySleep (ctx_config ctx))) (\<lambda>ready.
     if \<not> ready then io_return (False, pullRequest)
     else
     io_bind (rewrite_body regexp_exec (mergeCommitMessageRegex (ctx_config ctx)) pullRequest) (\<lambda>pullRequest'.
     if truthy (mergeFilterAuthor (ctx_config ctx)) \<and>
        Some (user_login pullRequest') \<noteq> mergeFilterAuthor (ctx_config ctx)
     then io_return (False, pullRequest')
     else
     io_bind (tryMerge (ctx_octokit ctx) pullRequest' (sha (head pullRequest)) (mergeMethod (ctx_config ctx))
                (mergeRetries (ctx_config ctx)) (mergeRetrySleep (ctx_config ctx))
                (getCommitMessage (mergeCommitMessage (ctx_config ctx)) pullRequest')) (\<lambda>merged'.
     if \<not> merged' then io_return (False, pullRequest')
     else
     io_bind (logger Info [LStr ''PR successfully merged!'']) (\<lambda>_.
     io_bind (io_catch (removeLabels (ctx_octokit ctx) pullRequest' (mergeRemoveLabels (ctx_config ctx)))
                (\<lambda>e. logger Info [LStr ''Failed to remove labels:'', LVal (message e)])) (\<lambda>_.
     io_bind (if mergeDeleteBranch (ctx_config ctx)
              then io_catch (deleteBranch (ctx_octokit ctx) pullRequest')
                     (\<lambda>e. logger Info [LStr ''Failed to delete branch:'', LVal (message e)])
              else io_return ()) (\<lambda>_.
     io_return (True, pullRequest')))))))))"

section \<open>A regular-expression engine for a fragment of the pattern language\<close>

text \<open>
  The examples below need one engine to run. \<open>sample_exec\<close> implements \<^verbatim>\<open>exec\<close> for
  patterns built from literal characters, the dot, a star after a literal or a dot (greedy,
  with backtracking), capturing parentheses, and the anchors \<^verbatim>\<open>^\<close> and \<^verbatim>\<open>$\<close>, under
  the flags \<^verbatim>\<open>i\<close>, \<^verbatim>\<open>m\<close> and \<^verbatim>\<open>s\<close>. A pattern with any other special character is
  outside the fragment: the engine does not support it and reports that as an error. The
  general theorems hold for every engine.
\<close>

datatype rx_item = RAtom atom | RStar atom | ROpen | RClose | RBol | REol

record rx_flags =
  ignoreCase :: bool
  multiline :: bool
  dotAll :: bool

definition flags_of :: "string \<Rightarrow> rx_flags" where
  "flags_of flags = \<lparr>ignoreCase = CHR ''i'' \<in> set flags, multiline = CHR ''m'' \<in> set flags,
     dotAll = CHR ''s'' \<in> set flags\<rparr>"

definition rx_special :: "char \<Rightarrow> bool" where
  "rx_special c = (c \<in> set (CHR 0x5C # ''[]{}+?|*''))"

definition atom_of :: "char \<Rightarrow> atom" where
  "atom_of c = (if c = CHR ''.'' then AnyChar else Lit c)"

fun parse_rx :: "string \<Rightarrow> rx_item list option" where
  "parse_rx [] = Some []"
| "parse_rx (c # cs) =
     (if c = CHR 0x28 then map_option (Cons ROpen) (parse_rx cs)
      else if c = CHR 0x29 then map_option (Cons RClose) (parse_rx cs)
      else if c = CHR 0x5E then map_option (Cons RBol) (parse_rx cs)
      else if c = CHR 0x24 then map_option (Cons REol) (parse_rx cs)
      else if rx_special c then None
      else (case cs of
              [] \<Rightarrow> Some [RAtom (atom_of c)]
            | d # ds \<Rightarrow>
                if d = CHR 0x2A then map_option (Cons (RStar (atom_of c))) (parse_rx ds)
                else map_option (Cons (RAtom (atom_of c))) (parse_rx cs)))"

fun balanced :: "rx_item list \<Rightarrow> nat \<Rightarrow> bool" where
  "balanced [] depth = (depth = 0)"
| "balanced (ROpen # items) depth = balanced items (Suc depth)"
| "balanced (RClose # items) depth = (case depth of 0 \<Rightarrow> False | Suc d \<Rightarrow> balanced items d)"
| "balanced (_ # items) depth = balanced items depth"

text \<open>
  Case folding under the flag \<^verbatim>\<open>i\<close>: a small letter, among the code units below 256, is
  compared as its capital.
\<close>

definition canonicalize :: "char \<Rightarrow> char" where
  "canonicalize c =
     (let n = (of_char c :: nat) in
      if (97 \<le> n \<and> n \<le> 122) \<or> (224 \<le> n \<and> n \<le> 254 \<and> n \<noteq> 247) then char_of (n - 32) else c)"

fun rx_atom_ok :: "rx_flags \<Rightarrow> atom \<Rightarrow> char \<Rightarrow> bool" where
  "rx_atom_ok fl (Lit a) c = (if ignoreCase fl then canonicalize a = canonicalize c else a = c)"
| "rx_atom_ok fl AnyChar c = (dotAll fl \<or> \<not> is_line_terminator c)"

definition push_char :: "char \<Rightarrow> (nat \<times> string) list \<Rightarrow> (nat \<times> string) list" where
  "push_char c opens = map (\<lambda>(i, t). (i, c # t)) opens"

text \<open>
  The matcher at one position. \<open>prev\<close> is the input before the position, last character
  first; \<open>opens\<close> are the groups that are open, each with its text so far (reversed), group 0
  being the whole match; \<open>closed\<close> are the groups that are complete.
\<close>

fun rx_run ::
  "rx_flags \<Rightarrow> rx_item list \<Rightarrow> string \<Rightarrow> string \<Rightarrow> nat \<Rightarrow> (nat \<times> string) list \<Rightarrow> (nat \<times> string) list
     \<Rightarrow> (nat \<times> string) list option" where
  "rx_run fl [] prev rest n opens closed = Some (closed @ map (\<lambda>(i, t). (i, rev t)) opens)"
| "rx_run fl (ROpen # items) prev rest n opens closed = rx_run fl items prev rest (Suc n) ((n, []) # opens) closed"
| "rx_run fl (RClose # items) prev rest n opens closed =
     (case opens of [] \<Rightarrow> None | (i, t) # os \<Rightarrow> rx_run fl items prev rest n os ((i, rev t) # closed))"
| "rx_run fl (RBol # items) prev rest n opens closed =
     (if (case prev of [] \<Rightarrow> True | p # _ \<Rightarrow> multiline fl \<and> is_line_terminator p)
      then rx_run fl items prev rest n opens closed else None)"
| "rx_run fl (REol # items) prev rest n opens closed =
     (if (case rest of [] \<Rightarrow> True | c # _ \<Rightarrow> multiline fl \<and> is_line_terminator c)
      then rx_run fl items prev rest n opens closed else None)"
| "rx_run fl (RAtom a # items) prev [] n opens closed = None"
| "rx_run fl (RAtom a # items) prev (c # cs) n opens closed =
     (if rx_atom_ok fl a c then rx_run fl items (c # prev) cs n (push_char c opens) closed else None)"
| "rx_run fl (RStar a # items) prev [] n opens closed = rx_run fl items prev [] n opens closed"
| "rx_run fl (RStar a # items) prev (c # cs) n opens closed =
     (if rx_atom_ok fl a c
      then (case rx_run fl (RStar a # items) (c # prev) cs n (push_char c opens) closed of
              Some groups \<Rightarrow> Some groups
            | None \<Rightarrow> rx_run fl items prev (c # cs) n opens closed)
      else rx_run fl items prev (c # cs) n opens closed)"

text \<open>The search for the first position with a match, from the left.\<close>

fun rx_search :: "rx_flags \<Rightarrow> rx_item list \<Rightarrow> string \<Rightarrow> string \<Rightarrow> (nat \<times> string) list option" where
  "rx_search fl items prev [] = rx_run fl items prev [] 1 [(0, [])] []"
| "rx_search fl items prev (c # cs) =
     (case rx_run fl items prev (c # cs) 1 [(0, [])] [] of
        Some groups \<Rightarrow> Some groups
      | None \<Rightarrow> rx_search fl items (c # prev) cs)"

definition group_count :: "rx_item list \<Rightarrow> nat" where
  "group_count items = length (filter (\<lambda>i. i = ROpen) items)"

definition sample_exec :: regexp_engine where
  "sample_exec pattern flags input =
     (case parse_rx pattern of
        None \<Rightarrow> RegExpSyntaxError (Error (Str ''pattern outside the supported fragment''))
      | Some items \<Rightarrow>
          if \<not> balanced items 0 then RegExpSyntaxError (Error (Str ''Invalid regular expression''))
          else (case rx_search (flags_of flags) items [] input of
                  None \<Rightarrow> NoMatch
                | Some groups \<Rightarrow> Match (map (map_of groups) [0..<Suc (group_count items)])))"

section \<open>Sample data\<close>

definition sample_repo :: repo where
  "sample_repo = \<lparr>full_name = ''acme/app'', repo_name = ''app'', owner_login = ''acme''\<rparr>"

definition sample_pr :: pull_request where
  "sample_pr = \<lparr>number = 42, title = ''Add feature'', body = ''Details here'', state = ''open'',
     merged = False, mergeable_state = Str ''clean'',
     head = \<lparr>repo = sample_repo, sha = ''abc123'', ref = ''feature''\<rparr>,
     base = \<lparr>repo = sample_repo, sha = ''def456'', ref = ''main''\<rparr>,
     user_login = ''alice'', labels = [\<lparr>label_name = ''automerge''\<rparr>]\<rparr>"

definition init_st :: "'w \<Rightarrow> 'w st" where
  "init_st w = \<lparr>world = w, calls = [], logs = []\<rparr>"

text \<open>
  A remote service for the examples: every operation gives a fixed answer and leaves the
  world as it is.
\<close>

record sample_world =
  w_pull :: "js_error + pull_request"
  w_merge :: "js_error + unit"
  w_removeLabel :: "js_error + unit"
  w_branch :: "js_error + branch"
  w_deleteRef :: "js_error + unit"
  w_checks :: "js_error + check_run list option"
  w_reviews :: "js_error + review list"

definition sample_octokit :: "sample_world octokit" where
  "sample_octokit = \<lparr>
     pulls_get = (\<lambda>owner repo' n w. (w_pull w, w)),
     pulls_merge = (\<lambda>owner repo' n t m h mm w. (w_merge w, w)),
     issues_removeLabel = (\<lambda>owner repo' n l w. (w_removeLabel w, w)),
     repos_getBranch = (\<lambda>owner repo' b w. (w_branch w, w)),
     git_deleteRef = (\<lambda>owner repo' r w. (w_deleteRef w, w)),
     request_check_runs = (\<lambda>owner repo' r w. (w_checks w, w)),
     request_reviews = (\<lambda>owner repo' n w. (w_reviews w, w))\<rparr>"

definition sample_world :: sample_world where
  "sample_world = \<lparr>w_pull = Inr sample_pr, w_merge = Inr (), w_removeLabel = Inr (),
     w_branch = Inr \<lparr>branch_name = ''feature'', protected = False\<rparr>, w_deleteRef = Inr (),
     w_checks = Inr (Some [\<lparr>check_name = ''ci'', conclusion = Str ''success''\<rparr>]),
     w_reviews = Inr [\<lparr>review_state = ''APPROVED''\<rparr>]\<rparr>"

definition sample_config :: config where
  "sample_config = \<lparr>mergeForks = True, mergeLabels_blocking = [''wip''], mergeLabels_required = [''automerge''],
     mergeRequireStatuses = None, mergeRequireApproval = False, mergeMethod = ''squash'',
     mergeCommitMessage = ''pull-request-title-and-description'', mergeCommitMessageRegex = None,
     mergeFilterAuthor = None, mergeRemoveLabels = [''automerge''], mergeRetries = 3, mergeRetrySleep = 1000,
     mergeDeleteBranch = True, failOnMergeSkip = False\<rparr>"

definition sample_ctx :: "config \<Rightarrow> sample_world merge_context" where
  "sample_ctx cfg = \<lparr>ctx_octokit = sample_octokit, ctx_config = cfg\<rparr>"

text \<open>Inputs of the examples for the merge operation.\<close>

definition closed_pr :: pull_request where
  "closed_pr = sample_pr\<lparr>state := ''closed''\<rparr>"

definition groupless_config :: config where
  "groupless_config = sample_config\<lparr>mergeCommitMessageRegex := Some ''Details''\<rparr>"

definition filtering_config :: config where
  "filtering_config = sample_config\<lparr>mergeFilterAuthor := Some ''bob'', failOnMergeSkip := True\<rparr>"

definition failing_cleanup_world :: sample_world where
  "failing_cleanup_world = sample_world\<lparr>w_removeLabel := Inl (Error (Str ''Label does not exist'')),
     w_deleteRef := Inl (Error (Str ''Reference does not exist''))\<rparr>"

definition summary_pr :: pull_request where
  "summary_pr = sample_pr\<lparr>body := ''Summary:   faster merges  ''\<rparr>"

definition extracting_config :: "string \<Rightarrow> config" where
  "extracting_config pattern = sample_config\<lparr>mergeCommitMessage := ''pull-request-description'',
     mergeCommitMessageRegex := Some pattern\<rparr>"

definition fork_pr :: pull_request where
  "fork_pr = sample_pr\<lparr>head := \<lparr>repo = \<lparr>full_name = ''carol/app'', repo_name = ''app'', owner_login = ''carol''\<rparr>,
     sha = ''abc123'', ref = ''feature''\<rparr>\<rparr>"

section \<open>The wording of the claim on required checks\<close>

text \<open>
  The spec asks that a required name match exactly one check run whose conclusion is the
  success value. These definitions follow the spec's words; they are compared with the code
  below.
\<close>

definition successful_runs_named :: "check_run list \<Rightarrow> string \<Rightarrow> check_run list" where
  "successful_runs_named checks required =
     filter (\<lambda>run. check_name run = required \<and> conclusion run = Str ''success'') checks"

definition matches_exactly_one_success :: "check_run list \<Rightarrow> string \<Rightarrow> bool" where
  "matches_exactly_one_success checks required = (length (successful_runs_named checks required) = 1)"

definition twice_green :: "check_run list" where
  "twice_green = [\<lparr>check_name = ''ci'', conclusion = Str ''success''\<rparr>,
                  \<lparr>check_name = ''ci'', conclusion = Str ''success''\<rparr>]"

section \<open>Specifications of effects\<close>

text \<open>
  \<open>io_spec P Q m\<close>: from every state, \<open>m\<close> only adds requests, each of which satisfies
  \<open>P\<close>, only adds log entries, and a value it returns satisfies \<open>Q\<close>.
  \<open>run_at m w r w'\<close>: from every state whose remote world is \<open>w\<close>, whatever its requests
  and log, \<open>m\<close> ends with the result \<open>r\<close> and the remote world \<open>w'\<close>.
\<close>

definition io_spec :: "(call \<Rightarrow> bool) \<Rightarrow> ('a \<Rightarrow> bool) \<Rightarrow> ('a, 'w) io \<Rightarrow> bool" where
  "io_spec P Q m =
     (\<forall>s. (\<exists>cs. calls (snd (m s)) = calls s @ cs \<and> list_all P cs) \<and>
          (\<exists>ls. logs (snd (m s)) = logs s @ ls) \<and>
          (\<forall>x. fst (m s) = Inr x \<longrightarrow> Q x))"

definition run_at :: "('a, 'w) io \<Rightarrow> 'w \<Rightarrow> (js_error + 'a) \<Rightarrow> 'w \<Rightarrow> bool" where
  "run_at m w r w' = (\<forall>s. world s = w \<longrightarrow> fst (m s) = r \<and> world (snd (m s)) = w')"

text \<open>
  The conditions of \<^verbatim>\<open>skipPullRequest\<close> in closed form: the five conditions that need no
  request, and the condition on one required check name.
\<close>

definition local_skip :: "config \<Rightarrow> pull_request \<Rightarrow> bool" where
  "local_skip cfg pr =
     (state pr \<noteq> ''open'' \<or> merged pr \<or>
      (full_name (repo (head pr)) \<noteq> full_name (repo (base pr)) \<and> \<not> mergeForks cfg) \<or>
      (\<exists>l\<in>set (labels pr). label_name l \<in> set (mergeLabels_blocking cfg)) \<or>
      (\<exists>r\<in>set (mergeLabels_required cfg). r \<notin> set (map label_name (labels pr))))"

definition check_fails :: "check_run list \<Rightarrow> string \<Rightarrow> bool" where
  "check_fails cs r = ((\<forall>c\<in>set cs. check_name c \<noteq> r) \<or>
     (\<exists>c\<in>set cs. check_name c = r \<and> conclusion c \<noteq> Str ''success''))"

section \<open>Helper facts\<close>

text \<open>
  The equations of \<open>string_of_nat\<close> and \<open>replace_global\<close> call themselves without a
  pattern on the left: they are unfolded on demand only.
\<close>

declare string_of_nat.simps [simp del]

declare replace_global.simps [simp del]

lemma string_includes_sublist: "string_includes h n \<longleftrightarrow> sublist n h"
  by (induction h) (auto simp: sublist_Cons_right)

lemma checkReady_result:
  "fst (checkReady pr s) =
     Inr (if loose_eq_null (mergeable_state pr) \<or> array_includes MAYBE_READY (mergeable_state pr) then Success
          else if array_includes NOT_READY (mergeable_state pr) then Failure else Retry)"
  by (simp add: checkReady_def io_bind_def logger_def io_return_def)

section \<open>Requests and log entries of each function\<close>

lemma io_spec_return: "Q x \<Longrightarrow> io_spec P Q (io_return x)"
  by (simp add: io_spec_def io_return_def)

lemma io_spec_throw: "io_spec P Q (io_throw e)"
  by (simp add: io_spec_def io_throw_def)

lemma io_spec_logger: "Q () \<Longrightarrow> io_spec P Q (logger lv args)"
  by (simp add: io_spec_def logger_def)

lemma io_spec_remote: "P c \<Longrightarrow> (\<And>x. Q x) \<Longrightarrow> io_spec P Q (remote c f)"
  by (simp add: io_spec_def remote_def split: prod.splits)

lemma io_spec_bind:
  assumes m: "io_spec P R m" and f: "\<And>x. R x \<Longrightarrow> io_spec P Q (f x)"
  shows "io_spec P Q (io_bind m f)"
  unfolding io_spec_def
proof
  fix s
  obtain r s1 where ms: "m s = (r, s1)" by (cases "m s")
  from m obtain cs ls where c1: "calls s1 = calls s @ cs" "list_all P cs" and l1: "logs s1 = logs s @ ls"
    and q1: "\<forall>x. r = Inr x \<longrightarrow> R x"
    using ms unfolding io_spec_def by (metis fst_conv snd_conv)
  show "(\<exists>cs. calls (snd (io_bind m f s)) = calls s @ cs \<and> list_all P cs) \<and>
        (\<exists>ls. logs (snd (io_bind m f s)) = logs s @ ls) \<and>
        (\<forall>x. fst (io_bind m f s) = Inr x \<longrightarrow> Q x)"
  proof (cases r)
    case (Inl e)
    then show ?thesis using ms c1 l1 by (simp add: io_bind_def)
  next
    case (Inr x)
    with q1 have "R x" by simp
    from f [OF this] obtain cs' ls' where c2: "calls (snd (f x s1)) = calls s1 @ cs'" "list_all P cs'"
      and l2: "logs (snd (f x s1)) = logs s1 @ ls'" and q2: "\<forall>y. fst (f x s1) = Inr y \<longrightarrow> Q y"
      unfolding io_spec_def by metis
    have eq: "io_bind m f s = f x s1" using ms Inr by (simp add: io_bind_def)
    show ?thesis using c1 c2 l1 l2 q2 by (simp add: eq)
  qed
qed

lemma io_spec_catch:
  assumes m: "io_spec P Q m" and h: "\<And>e. io_spec P Q (h e)"
  shows "io_spec P Q (io_catch m h)"
  unfolding io_spec_def
proof
  fix s
  obtain r s1 where ms: "m s = (r, s1)" by (cases "m s")
  from m obtain cs ls where c1: "calls s1 = calls s @ cs" "list_all P cs" and l1: "logs s1 = logs s @ ls"
    and q1: "\<forall>x. r = Inr x \<longrightarrow> Q x"
    using ms unfolding io_spec_def by (metis fst_conv snd_conv)
  show "(\<exists>cs. calls (snd (io_catch m h s)) = calls s @ cs \<and> list_all P cs) \<and>
        (\<exists>ls. logs (snd (io_catch m h s)) = logs s @ ls) \<and>
        (\<forall>x. fst (io_catch m h s) = Inr x \<longrightarrow> Q x)"
  proof (cases r)
    case (Inr x)
    then show ?thesis using ms c1 l1 q1 by (simp add: io_catch_def)
  next
    case (Inl e)
    from h [of e] obtain cs' ls' where c2: "calls (snd (h e s1)) = calls s1 @ cs'" "list_all P cs'"
      and l2: "logs (snd (h e s1)) = logs s1 @ ls'" and q2: "\<forall>y. fst (h e s1) = Inr y \<longrightarrow> Q y"
      unfolding io_spec_def by metis
    have eq: "io_catch m h s = h e s1" using ms Inl by (simp add: io_catch_def)
    show ?thesis using c1 c2 l1 l2 q2 by (simp add: eq)
  qed
qed

lemma io_spec_weaken: "io_spec P Q m \<Longrightarrow> (\<And>x. Q x \<Longrightarrow> Q' x) \<Longrightarrow> io_spec P Q' m"
  unfolding io_spec_def by blast

lemma io_spec_bindT: "io_spec P (\<lambda>_. True) m \<Longrightarrow> (\<And>x. io_spec P Q (f x)) \<Longrightarrow> io_spec P Q (io_bind m f)"
  by (rule io_spec_bind [where R = "\<lambda>_. True"]) simp_all

lemma io_spec_returnT: "io_spec P (\<lambda>_. True) (io_return x)"
  by (rule io_spec_return) simp

lemma io_spec_loggerT: "io_spec P (\<lambda>_. True) (logger lv args)"
  by (rule io_spec_logger) simp

lemma io_spec_remoteT: "P c \<Longrightarrow> io_spec P (\<lambda>_. True) (remote c f)"
  by (rule io_spec_remote) simp_all

lemmas io_spec_T = io_spec_bindT io_spec_returnT io_spec_loggerT io_spec_remoteT io_spec_throw io_spec_catch

lemma checkReady_spec: "io_spec P (\<lambda>_. True) (checkReady pr)"
  unfolding checkReady_def by (auto intro!: io_spec_T)

lemma checkMergeError_spec: "io_spec P (\<lambda>_. True) (checkMergeError e)"
  unfolding checkMergeError_def Let_def by (auto intro!: io_spec_T)

lemma getPullRequest_spec:
  "(\<And>c. \<not> is_merge_call c \<Longrightarrow> P c) \<Longrightarrow> io_spec P (\<lambda>_. True) (getPullRequest octokit pr)"
  unfolding getPullRequest_def by (auto intro!: io_spec_T)

lemma fetchChecks_spec:
  "(\<And>c. \<not> is_merge_call c \<Longrightarrow> P c) \<Longrightarrow> io_spec P (\<lambda>_. True) (fetchChecks ctx pr)"
  unfolding fetchChecks_def Let_def by (auto intro!: io_spec_T)

lemma fetchReviews_spec:
  "(\<And>c. \<not> is_merge_call c \<Longrightarrow> P c) \<Longrightarrow> io_spec P (\<lambda>_. True) (fetchReviews ctx pr)"
  unfolding fetchReviews_def by (auto intro!: io_spec_T)

lemma retry_loop_spec:
  "io_spec P (\<lambda>_. True) a \<Longrightarrow> io_spec P (\<lambda>_. True) ex \<Longrightarrow> io_spec P (\<lambda>_. True) (retry_loop n a ex)"
  by (induction n) (auto intro!: io_spec_T split: outcome.splits)

lemma retry_spec:
  "io_spec P (\<lambda>_. True) i \<Longrightarrow> io_spec P (\<lambda>_. True) a \<Longrightarrow> io_spec P (\<lambda>_. True) ex \<Longrightarrow>
   io_spec P (\<lambda>_. True) (retry n ms i a ex)"
  unfolding retry_def by (auto intro!: io_spec_T retry_loop_spec split: outcome.splits)

lemma waitUntilReady_spec:
  "(\<And>c. \<not> is_merge_call c \<Longrightarrow> P c) \<Longrightarrow> io_spec P (\<lambda>_. True) (waitUntilReady octokit pr n ms)"
  unfolding waitUntilReady_def by (auto intro!: retry_spec io_spec_T checkReady_spec getPullRequest_spec)

lemma mergePullRequest_spec:
  "P (PullsMerge (owner_login (repo (base pr))) (repo_name (repo (base pr))) (number pr) msg [] h mm) \<Longrightarrow>
   io_spec P (\<lambda>_. True) (mergePullRequest octokit pr h mm msg)"
  unfolding mergePullRequest_def by (auto intro!: io_spec_T checkMergeError_spec)

lemma tryMerge_spec:
  "(\<And>c. \<not> is_merge_call c \<Longrightarrow> P c) \<Longrightarrow>
   P (PullsMerge (owner_login (repo (base pr))) (repo_name (repo (base pr))) (number pr) msg [] h mm) \<Longrightarrow>
   io_spec P (\<lambda>_. True) (tryMerge octokit pr h mm n ms msg)"
  unfolding tryMerge_def
  by (auto intro!: retry_spec io_spec_T mergePullRequest_spec getPullRequest_spec)

lemma removeLabels_loop_spec:
  "(\<And>c. \<not> is_merge_call c \<Longrightarrow> P c) \<Longrightarrow> io_spec P (\<lambda>_. True) (removeLabels_loop octokit pr names)"
  by (induction names) (auto intro!: io_spec_T)

lemma removeLabels_spec:
  "(\<And>c. \<not> is_merge_call c \<Longrightarrow> P c) \<Longrightarrow> io_spec P (\<lambda>_. True) (removeLabels octokit pr rm)"
  unfolding removeLabels_def Let_def by (auto intro!: io_spec_T removeLabels_loop_spec)

lemma deleteBranch_spec:
  "(\<And>c. \<not> is_merge_call c \<Longrightarrow> P c) \<Longrightarrow> io_spec P (\<lambda>_. True) (deleteBranch octokit pr)"
  unfolding deleteBranch_def by (auto intro!: io_spec_T)

lemma blocking_loop_spec: "io_spec P (\<lambda>_. True) (blocking_loop bl ls skip)"
  by (induction ls arbitrary: skip) (auto intro!: io_spec_T)

lemma required_loop_spec: "io_spec P (\<lambda>_. True) (required_loop ns rs skip)"
  by (induction rs arbitrary: skip) (auto intro!: io_spec_T)

lemma checks_loop_spec: "io_spec P (\<lambda>_. True) (checks_loop r cs found skip)"
  by (induction cs arbitrary: found skip) (auto intro!: io_spec_T)

lemma statuses_loop_spec: "io_spec P (\<lambda>_. True) (statuses_loop cs rs skip)"
  by (induction rs arbitrary: skip) (auto intro!: io_spec_T checks_loop_spec)

lemma skipPullRequest_spec:
  "(\<And>c. \<not> is_merge_call c \<Longrightarrow> P c) \<Longrightarrow> io_spec P (\<lambda>_. True) (skipPullRequest ctx pr)"
  unfolding skipPullRequest_def
  by (auto intro!: io_spec_T blocking_loop_spec required_loop_spec statuses_loop_spec fetchChecks_spec
        fetchReviews_spec split: option.splits)

lemma rewrite_body_spec:
  "io_spec P (\<lambda>pr'. \<exists>b. pr' = pr\<lparr>body := b\<rparr>) (rewrite_body rx regex pr)"
proof -
  have self: "\<exists>b. pr = pr\<lparr>body := b\<rparr>" by (rule exI [of _ "body pr"]) simp
  show ?thesis
    unfolding rewrite_body_def
    by (auto intro!: io_spec_return io_spec_throw self split: option.splits exec_result.splits)
qed

lemma rewrite_body_state: "snd (rewrite_body rx regex pr s) = s"
  unfolding rewrite_body_def by (auto simp: io_return_def io_throw_def split: option.splits exec_result.splits)

section \<open>The result of the eligibility check\<close>

lemma run_at_return: "run_at (io_return x) w (Inr x) w"
  by (simp add: run_at_def io_return_def)

lemma run_at_logger: "run_at (logger lv args) w (Inr ()) w"
  by (simp add: run_at_def logger_def)

lemma run_at_bind:
  fixes m :: "('a, 'w) io"
  assumes "run_at m w (Inr x) w1" and "run_at (f x) w1 r w2"
  shows "run_at (io_bind m f) w r w2"
  unfolding run_at_def
proof (intro allI impI)
  fix s :: "'w st" assume w: "world s = w"
  obtain r1 s1 where ms: "m s = (r1, s1)" by (cases "m s")
  with assms(1) w have "r1 = Inr x" "world s1 = w1" unfolding run_at_def by fastforce+
  with assms(2) ms show "fst (io_bind m f s) = r \<and> world (snd (io_bind m f s)) = w2"
    unfolding run_at_def by (simp add: io_bind_def)
qed

lemma blocking_loop_run:
  "run_at (blocking_loop bl ls skip) w (Inr (skip \<or> (\<exists>l\<in>set ls. label_name l \<in> set bl))) w"
proof (induction ls arbitrary: skip)
  case Nil
  show ?case by (simp add: run_at_return)
next
  case (Cons l ls)
  show ?case
  proof (cases "label_name l \<in> set bl")
    case True
    have "run_at (blocking_loop bl ls True) w (Inr True) w" using Cons [of True] by simp
    then show ?thesis using True by (auto intro: run_at_bind [OF run_at_logger])
  next
    case False
    then show ?thesis using Cons [of skip] by simp
  qed
qed

lemma required_loop_run:
  "run_at (required_loop ns rs skip) w (Inr (skip \<or> (\<exists>r\<in>set rs. r \<notin> set ns))) w"
proof (induction rs arbitrary: skip)
  case Nil
  show ?case by (simp add: run_at_return)
next
  case (Cons r rs)
  show ?case
  proof (cases "r \<in> set ns")
    case False
    have "run_at (required_loop ns rs True) w (Inr True) w" using Cons [of True] by simp
    then show ?thesis using False by (auto intro: run_at_bind [OF run_at_logger])
  next
    case True
    then show ?thesis using Cons [of skip] by simp
  qed
qed

lemma checks_loop_run:
  "run_at (checks_loop r cs found skip) w
     (Inr (found \<or> (\<exists>c\<in>set cs. check_name c = r),
           skip \<or> (\<exists>c\<in>set cs. check_name c = r \<and> conclusion c \<noteq> Str ''success''))) w"
proof (induction cs arbitrary: found skip)
  case Nil
  show ?case by (simp add: run_at_return)
next
  case (Cons c cs)
  consider (bad) "check_name c = r" "conclusion c \<noteq> Str ''success''"
    | (good) "check_name c = r" "conclusion c = Str ''success''"
    | (other) "check_name c \<noteq> r" by blast
  then show ?case
  proof cases
    case bad
    have "run_at (checks_loop r cs True True) w (Inr (True, True)) w" using Cons [of True True] by simp
    then show ?thesis using bad by (auto intro: run_at_bind [OF run_at_logger])
  next
    case good
    then show ?thesis using Cons [of True skip] by simp
  next
    case other
    then show ?thesis using Cons [of found skip] by auto
  qed
qed

lemma statuses_loop_run:
  "run_at (statuses_loop cs rs skip) w (Inr (skip \<or> (\<exists>r\<in>set rs. check_fails cs r))) w"
proof (induction rs arbitrary: skip)
  case Nil
  show ?case by (simp add: run_at_return)
next
  case (Cons r rs)
  let ?found = "\<exists>c\<in>set cs. check_name c = r"
  let ?skip' = "skip \<or> (\<exists>c\<in>set cs. check_name c = r \<and> conclusion c \<noteq> Str ''success'')"
  have inner: "run_at (checks_loop r cs False skip) w (Inr (?found, ?skip')) w"
    using checks_loop_run [of r cs False skip w] by simp
  show ?case
  proof (cases ?found)
    case False
    have "run_at (statuses_loop cs rs True) w (Inr True) w" using Cons [of True] by simp
    then have "run_at (io_bind (logger Info [LStr ''Skipping PR merge, required check is absent:'', LStr r])
        (\<lambda>_. statuses_loop cs rs True)) w (Inr True) w"
      by (rule run_at_bind [OF run_at_logger])
    then have "run_at (statuses_loop cs (r # rs) skip) w (Inr True) w"
      using False by (auto intro!: run_at_bind [OF inner])
    moreover have "check_fails cs r" using False by (auto simp: check_fails_def)
    ultimately show ?thesis by simp
  next
    case True
    have "run_at (statuses_loop cs rs ?skip') w (Inr (?skip' \<or> (\<exists>r\<in>set rs. check_fails cs r))) w"
      by (rule Cons)
    then have "run_at (statuses_loop cs (r # rs) skip) w (Inr (?skip' \<or> (\<exists>r\<in>set rs. check_fails cs r))) w"
      using True by (auto intro!: run_at_bind [OF inner])
    moreover have "check_fails cs r \<longleftrightarrow> (\<exists>c\<in>set cs. check_name c = r \<and> conclusion c \<noteq> Str ''success'')"
      using True by (auto simp: check_fails_def)
    ultimately show ?thesis by (simp add: disj_assoc)
  qed
qed

lemma count_approvals_eq:
  "count_approvals rs n = n + length (filter (\<lambda>r. review_state r = ''APPROVED'') rs)"
  by (induction rs arbitrary: n) auto

lemma count_approvals_zero:
  "count_approvals rs 0 = 0 \<longleftrightarrow> (\<forall>r\<in>set rs. review_state r \<noteq> ''APPROVED'')"
  by (simp add: count_approvals_eq filter_empty_conv)

lemma fetchChecks_run:
  assumes "request_check_runs (ctx_octokit ctx) (owner_login (repo (base pr))) (repo_name (repo (base pr)))
             (sha (head pr)) w = (Inr response, w1)"
  shows "run_at (fetchChecks ctx pr) w (Inr (case response of None \<Rightarrow> [] | Some runs \<Rightarrow> runs)) w1"
  using assms by (simp add: run_at_def fetchChecks_def io_bind_def logger_def remote_def io_return_def Let_def)

lemma fetchReviews_run:
  assumes "request_reviews (ctx_octokit ctx) (owner_login (repo (base pr))) (repo_name (repo (base pr)))
             (number pr) w = (Inr reviews, w1)"
  shows "run_at (fetchReviews ctx pr) w (Inr reviews) w1"
  using assms by (simp add: run_at_def fetchReviews_def io_bind_def logger_def remote_def io_return_def)

lemma skipPullRequest_run:
  assumes chk: "case mergeRequireStatuses (ctx_config ctx) of
                  None \<Rightarrow> w1 = w \<and> checks = []
                | Some names \<Rightarrow>
                    \<exists>response. request_check_runs (ctx_octokit ctx) (owner_login (repo (base pr)))
                       (repo_name (repo (base pr))) (sha (head pr)) w = (Inr response, w1) \<and>
                       checks = (case response of None \<Rightarrow> [] | Some runs \<Rightarrow> runs)"
    and rev: "if mergeRequireApproval (ctx_config ctx)
              then request_reviews (ctx_octokit ctx) (owner_login (repo (base pr)))
                     (repo_name (repo (base pr))) (number pr) w1 = (Inr reviews, w2)
              else w2 = w1"
  shows "run_at (skipPullRequest ctx pr) w
           (Inr (local_skip (ctx_config ctx) pr \<or>
                 (case mergeRequireStatuses (ctx_config ctx) of
                    None \<Rightarrow> False | Some names \<Rightarrow> \<exists>r\<in>set names. check_fails checks r) \<or>
                 (mergeRequireApproval (ctx_config ctx) \<and> (\<forall>r\<in>set reviews. review_state r \<noteq> ''APPROVED''))))
           w2"
proof -
  let ?cfg = "ctx_config ctx"
  let ?b1 = "state pr \<noteq> ''open''"
  let ?b2 = "?b1 \<or> merged pr"
  let ?b3 = "?b2 \<or> (full_name (repo (head pr)) \<noteq> full_name (repo (base pr)) \<and> \<not> mergeForks ?cfg)"
  let ?b4 = "?b3 \<or> (\<exists>l\<in>set (labels pr). label_name l \<in> set (mergeLabels_blocking ?cfg))"
  let ?b5 = "?b4 \<or> (\<exists>r\<in>set (mergeLabels_required ?cfg). r \<notin> set (map label_name (labels pr)))"
  let ?b6 = "?b5 \<or> (case mergeRequireStatuses ?cfg of
                    None \<Rightarrow> False | Some names \<Rightarrow> \<exists>r\<in>set names. check_fails checks r)"
  let ?b7 = "?b6 \<or> (mergeRequireApproval ?cfg \<and> (\<forall>r\<in>set reviews. review_state r \<noteq> ''APPROVED''))"
  have s1: "run_at (if state pr \<noteq> ''open''
              then io_bind (logger Info [LStr ''Skipping PR merge, state is not open:'', LStr (state pr)])
                     (\<lambda>_. io_return True)
              else io_return False) w (Inr ?b1) w"
    by (simp add: run_at_def io_bind_def logger_def io_return_def)
  have s2: "run_at (if merged pr
              then io_bind (logger Info [LStr ''Skipping PR merge, already merged!'']) (\<lambda>_. io_return True)
              else io_return ?b1) w (Inr ?b2) w"
    by (simp add: run_at_def io_bind_def logger_def io_return_def)
  have s3: "run_at (if full_name (repo (head pr)) \<noteq> full_name (repo (base pr))
              then (if \<not> mergeForks ?cfg
                    then io_bind (logger Info [LStr ''PR is a fork and MERGE_FORKS is false, skipping merge''])
                           (\<lambda>_. io_return True)
                    else io_return ?b2)
              else io_return ?b2) w (Inr ?b3) w"
    by (simp add: run_at_def io_bind_def logger_def io_return_def)
  have s4: "run_at (blocking_loop (mergeLabels_blocking ?cfg) (labels pr) ?b3) w (Inr ?b4) w"
    by (rule blocking_loop_run)
  have s5: "run_at (required_loop (map label_name (labels pr)) (mergeLabels_required ?cfg) ?b4) w (Inr ?b5) w"
    by (rule required_loop_run)
  have s6: "run_at (case mergeRequireStatuses ?cfg of
                None \<Rightarrow> io_return ?b5
              | Some requiredNames \<Rightarrow>
                  io_bind (fetchChecks ctx pr) (\<lambda>checks. statuses_loop checks requiredNames ?b5))
              w (Inr ?b6) w1"
  proof (cases "mergeRequireStatuses ?cfg")
    case None
    then show ?thesis using chk by (simp add: run_at_def io_return_def)
  next
    case (Some names)
    with chk obtain response where
      r: "request_check_runs (ctx_octokit ctx) (owner_login (repo (base pr)))
            (repo_name (repo (base pr))) (sha (head pr)) w = (Inr response, w1)"
      and c: "checks = (case response of None \<Rightarrow> [] | Some runs \<Rightarrow> runs)" by auto
    have "run_at (io_bind (fetchChecks ctx pr) (\<lambda>checks. statuses_loop checks names ?b5)) w
            (Inr (?b5 \<or> (\<exists>r\<in>set names. check_fails checks r))) w1"
      unfolding c by (rule run_at_bind [OF fetchChecks_run [OF r]]) (rule statuses_loop_run)
    then show ?thesis using Some by simp
  qed
  have s7: "run_at (if mergeRequireApproval ?cfg
     then io_bind (fetchReviews ctx pr) (\<lambda>approvals.
            if count_approvals approvals 0 = 0
            then io_bind (logger Info [LStr ''Skipping PR merge, require approval but none found''])
                   (\<lambda>_. io_return True)
            else io_bind (logger Debug [LStr ''Found'', LNum (count_approvals approvals 0), LStr ''approval(s)''])
                   (\<lambda>_. io_return ?b6))
     else io_return ?b6) w1 (Inr ?b7) w2"
  proof (cases "mergeRequireApproval ?cfg")
    case False
    then show ?thesis using rev by (simp add: run_at_def io_return_def)
  next
    case True
    with rev have r: "request_reviews (ctx_octokit ctx) (owner_login (repo (base pr)))
                     (repo_name (repo (base pr))) (number pr) w1 = (Inr reviews, w2)" by simp
    have "run_at (if count_approvals reviews 0 = 0
            then io_bind (logger Info [LStr ''Skipping PR merge, require approval but none found''])
                   (\<lambda>_. io_return True)
            else io_bind (logger Debug [LStr ''Found'', LNum (count_approvals reviews 0), LStr ''approval(s)''])
                   (\<lambda>_. io_return ?b6)) w2 (Inr ?b7) w2"
      using True by (auto simp: run_at_def io_bind_def logger_def io_return_def count_approvals_zero)
    then show ?thesis using True by (simp add: run_at_bind [OF fetchReviews_run [OF r]])
  qed
  have "run_at (skipPullRequest ctx pr) w (Inr ?b7) w2"
    unfolding skipPullRequest_def
    by (rule run_at_bind [OF s1], rule run_at_bind [OF s2], rule run_at_bind [OF s3],
        rule run_at_bind [OF s4], rule run_at_bind [OF s5], rule run_at_bind [OF s6], rule s7)
  moreover have "?b7 = (local_skip ?cfg pr \<or>
                 (case mergeRequireStatuses ?cfg of
                    None \<Rightarrow> False | Some names \<Rightarrow> \<exists>r\<in>set names. check_fails checks r) \<or>
                 (mergeRequireApproval ?cfg \<and> (\<forall>r\<in>set reviews. review_state r \<noteq> ''APPROVED'')))"
    unfolding local_skip_def by blast
  ultimately show ?thesis by simp
qed

lemma run_at_post:
  fixes m :: "('a, 'w) io"
  assumes m: "run_at m w (Inr x) w1" and f: "\<And>t y. fst (f x t) = Inr y \<Longrightarrow> Q y"
    and w: "world s = w" and r: "fst (io_bind m f s) = Inr y"
  shows "Q y"
proof -
  obtain r1 s1 where ms: "m s = (r1, s1)" by (cases "m s")
  with m w have "r1 = Inr x" unfolding run_at_def by fastforce
  with ms r have "fst (f x s1) = Inr y" by (simp add: io_bind_def)
  then show ?thesis by (rule f)
qed

lemma statuses_loop_keeps: "fst (statuses_loop cs rs skip t) = Inr y \<Longrightarrow> skip \<Longrightarrow> y"
  using statuses_loop_run [of cs rs skip "world t"] by (simp add: run_at_def)

lemma bind_result:
  assumes "fst (io_bind m f s) = Inr y"
  obtains x s1 where "m s = (Inr x, s1)" and "fst (f x s1) = Inr y"
  using assms by (cases "m s") (auto simp: io_bind_def split: sum.splits)

lemma skip_tail_keeps:
  assumes r: "fst (io_bind (case mergeRequireStatuses (ctx_config ctx) of
                None \<Rightarrow> io_return skip5
              | Some requiredNames \<Rightarrow>
                  io_bind (fetchChecks ctx pr) (\<lambda>checks. statuses_loop checks requiredNames skip5))
       (\<lambda>skip6.
     if mergeRequireApproval (ctx_config ctx)
     then io_bind (fetchReviews ctx pr) (\<lambda>approvals.
            if count_approvals approvals 0 = 0
            then io_bind (logger Info [LStr ''Skipping PR merge, require approval but none found''])
                   (\<lambda>_. io_return True)
            else io_bind (logger Debug [LStr ''Found'', LNum (count_approvals approvals 0), LStr ''approval(s)''])
                   (\<lambda>_. io_return skip6))
     else io_return skip6) t) = Inr y" and skip: skip5
  shows y
proof -
  from r obtain skip6 t1 where
    a: "(case mergeRequireStatuses (ctx_config ctx) of
                None \<Rightarrow> io_return skip5
              | Some requiredNames \<Rightarrow>
                  io_bind (fetchChecks ctx pr) (\<lambda>checks. statuses_loop checks requiredNames skip5)) t
          = (Inr skip6, t1)"
    and b: "fst ((if mergeRequireApproval (ctx_config ctx)
     then io_bind (fetchReviews ctx pr) (\<lambda>approvals.
            if count_approvals approvals 0 = 0
            then io_bind (logger Info [LStr ''Skipping PR merge, require approval but none found''])
                   (\<lambda>_. io_return True)
            else io_bind (logger Debug [LStr ''Found'', LNum (count_approvals approvals 0), LStr ''approval(s)''])
                   (\<lambda>_. io_return skip6))
     else io_return skip6) t1) = Inr y"
    by (rule bind_result)
  have s6: skip6
  proof (cases "mergeRequireStatuses (ctx_config ctx)")
    case None
    with a skip show ?thesis by (simp add: io_return_def)
  next
    case (Some names)
    with a have "fst (io_bind (fetchChecks ctx pr) (\<lambda>checks. statuses_loop checks names skip5) t) = Inr skip6"
      by simp
    then show ?thesis
      by (rule bind_result) (erule statuses_loop_keeps, rule skip)
  qed
  show ?thesis
  proof (cases "mergeRequireApproval (ctx_config ctx)")
    case False
    with b s6 show ?thesis by (simp add: io_return_def)
  next
    case True
    with b have "fst (io_bind (fetchReviews ctx pr) (\<lambda>approvals.
            if count_approvals approvals 0 = 0
            then io_bind (logger Info [LStr ''Skipping PR merge, require approval but none found''])
                   (\<lambda>_. io_return True)
            else io_bind (logger Debug [LStr ''Found'', LNum (count_approvals approvals 0), LStr ''approval(s)''])
                   (\<lambda>_. io_return skip6)) t1) = Inr y" by simp
    then show ?thesis
      by (rule bind_result)
         (use s6 in \<open>simp add: io_bind_def logger_def io_return_def split: if_splits\<close>)
  qed
qed

section \<open>Requests and results of the merge operation\<close>

lemma merge_spec:
  fixes ctx :: "'w merge_context"
  assumes nm: "\<And>c. \<not> is_merge_call c \<Longrightarrow> P c"
    and rw: "io_spec P R (rewrite_body rx (mergeCommitMessageRegex (ctx_config ctx)) pr :: (pull_request, 'w) io)"
    and mc: "\<And>pr'. R pr' \<Longrightarrow>
          \<not> (truthy (mergeFilterAuthor (ctx_config ctx)) \<and>
             Some (user_login pr') \<noteq> mergeFilterAuthor (ctx_config ctx)) \<Longrightarrow>
          P (PullsMerge (owner_login (repo (base pr'))) (repo_name (repo (base pr'))) (number pr')
               (getCommitMessage (mergeCommitMessage (ctx_config ctx)) pr') [] (sha (head pr))
               (mergeMethod (ctx_config ctx)))"
  shows "io_spec P
           (\<lambda>(b, p). (b \<longrightarrow> R p \<and> \<not> (truthy (mergeFilterAuthor (ctx_config ctx)) \<and>
                                      Some (user_login p) \<noteq> mergeFilterAuthor (ctx_config ctx))) \<and>
                     (p = pr \<or> R p))
           (merge rx ctx pr)"
proof -
  let ?Q = "\<lambda>(b, p). (b \<longrightarrow> R p \<and> \<not> (truthy (mergeFilterAuthor (ctx_config ctx)) \<and>
                                      Some (user_login p) \<noteq> mergeFilterAuthor (ctx_config ctx))) \<and>
                     (p = pr \<or> R p)"
  let ?cfg = "ctx_config ctx"
  have cleanup: "io_spec P ?Q
     (io_bind (logger Info [LStr ''PR successfully merged!'']) (\<lambda>_.
      io_bind (io_catch (removeLabels (ctx_octokit ctx) pr' (mergeRemoveLabels ?cfg))
                (\<lambda>e. logger Info [LStr ''Failed to remove labels:'', LVal (message e)])) (\<lambda>_.
      io_bind (if mergeDeleteBranch ?cfg
              then io_catch (deleteBranch (ctx_octokit ctx) pr')
                     (\<lambda>e. logger Info [LStr ''Failed to delete branch:'', LVal (message e)])
              else io_return ()) (\<lambda>_.
      io_return (True, pr')))))"
    if "R pr'" "\<not> (truthy (mergeFilterAuthor ?cfg) \<and> Some (user_login pr') \<noteq> mergeFilterAuthor ?cfg)" for pr'
    using that
    by (auto intro!: io_spec_bindT io_spec_loggerT io_spec_catch io_spec_returnT io_spec_return
          removeLabels_spec deleteBranch_spec nm)
  have tail: "io_spec P ?Q
     (if truthy (mergeFilterAuthor ?cfg) \<and> Some (user_login pr') \<noteq> mergeFilterAuthor ?cfg
      then io_return (False, pr')
      else io_bind (tryMerge (ctx_octokit ctx) pr' (sha (head pr)) (mergeMethod ?cfg)
                (mergeRetries ?cfg) (mergeRetrySleep ?cfg)
                (getCommitMessage (mergeCommitMessage ?cfg) pr')) (\<lambda>merged'.
           if \<not> merged' then io_return (False, pr')
           else
           io_bind (logger Info [LStr ''PR successfully merged!'']) (\<lambda>_.
           io_bind (io_catch (removeLabels (ctx_octokit ctx) pr' (mergeRemoveLabels ?cfg))
                (\<lambda>e. logger Info [LStr ''Failed to remove labels:'', LVal (message e)])) (\<lambda>_.
           io_bind (if mergeDeleteBranch ?cfg
              then io_catch (deleteBranch (ctx_octokit ctx) pr')
                     (\<lambda>e. logger Info [LStr ''Failed to delete branch:'', LVal (message e)])
              else io_return ()) (\<lambda>_.
           io_return (True, pr'))))))" if r: "R pr'" for pr'
  proof (cases "truthy (mergeFilterAuthor ?cfg) \<and> Some (user_login pr') \<noteq> mergeFilterAuthor ?cfg")
    case True
    then show ?thesis using r by (simp add: io_spec_return)
  next
    case False
    have tm: "io_spec P (\<lambda>_. True) (tryMerge (ctx_octokit ctx) pr' (sha (head pr)) (mergeMethod ?cfg)
                (mergeRetries ?cfg) (mergeRetrySleep ?cfg) (getCommitMessage (mergeCommitMessage ?cfg) pr'))"
      by (rule tryMerge_spec) (rule nm, assumption, rule mc [OF r False])
    have after: "io_spec P ?Q (if \<not> merged' then io_return (False, pr')
           else
           io_bind (logger Info [LStr ''PR successfully merged!'']) (\<lambda>_.
           io_bind (io_catch (removeLabels (ctx_octokit ctx) pr' (mergeRemoveLabels ?cfg))
                (\<lambda>e. logger Info [LStr ''Failed to remove labels:'', LVal (message e)])) (\<lambda>_.
           io_bind (if mergeDeleteBranch ?cfg
              then io_catch (deleteBranch (ctx_octokit ctx) pr')
                     (\<lambda>e. logger Info [LStr ''Failed to delete branch:'', LVal (message e)])
              else io_return ()) (\<lambda>_.
           io_return (True, pr')))))" for merged'
      using cleanup [OF r False] r by (cases merged') (simp_all add: io_spec_return)
    show ?thesis
      apply (simp only: False if_False)
      apply (rule io_spec_bindT [OF tm])
      apply (rule after)
      done
  qed
  have wait: "io_spec P (\<lambda>_. True) (waitUntilReady (ctx_octokit ctx) pr (mergeRetries ?cfg) (mergeRetrySleep ?cfg))"
    by (rule waitUntilReady_spec) (rule nm)
  have sk: "io_spec P (\<lambda>_. True) (skipPullRequest ctx pr)"
    by (rule skipPullRequest_spec) (rule nm)
  show ?thesis
    unfolding merge_def
    apply (rule io_spec_bindT [OF sk])
    subgoal for skip
      apply (cases skip)
       apply (simp add: io_spec_throw io_spec_return)
      apply (simp only: if_False)
      apply (rule io_spec_bindT [OF io_spec_loggerT])
      apply (rule io_spec_bindT [OF wait])
      subgoal for u ready
        apply (cases ready)
         apply (simp only: not_True_eq_False if_False)
         apply (rule io_spec_bind [OF rw])
         apply (erule tail)
        apply (simp add: io_spec_return)
        done
      done
    done
qed

lemma merge_skip_result:
  assumes "skipPullRequest ctx pr s = (Inr True, s1)"
  shows "merge rx ctx pr s = (if failOnMergeSkip (ctx_config ctx) then (Inl skipped_error, s1)
                             else (Inr (False, pr), s1))"
  using assms by (simp add: merge_def io_bind_def io_throw_def io_return_def)

lemma io_spec_apply:
  "io_spec P Q m \<Longrightarrow>
   (\<exists>cs. calls (snd (m s)) = calls s @ cs \<and> (\<forall>c\<in>set cs. P c)) \<and> (\<forall>x. fst (m s) = Inr x \<longrightarrow> Q x)"
  by (simp add: io_spec_def list_all_iff)

lemma rewrite_body_no_group:
  assumes "regex = Some pattern" "pattern \<noteq> []" "rx pattern ''sm'' (body pr) = Match m" "first_group m = None"
  shows "rewrite_body rx regex pr =
           io_throw (Error (Str (''MERGE_COMMIT_MESSAGE_REGEX must contain a capturing subgroup: '' @ quote pattern)))"
  using assms by (simp add: rewrite_body_def)

lemma rewrite_body_group:
  assumes "regex = Some pattern" "pattern \<noteq> []" "rx pattern ''sm'' (body pr) = Match m" "first_group m = Some g"
  shows "rewrite_body rx regex pr = io_return (pr\<lparr>body := js_trim g\<rparr>)"
  using assms by (simp add: rewrite_body_def)

lemma rewrite_body_keeps_author:
  "io_spec P (\<lambda>p. user_login p = user_login pr) (rewrite_body rx regex pr)"
  by (rule io_spec_weaken [OF rewrite_body_spec]) auto

section \<open>Claims about the classifiers\<close>

text \<open>
  C1. The readiness classifier yields success when the mergeable state is one of clean,
  has_hooks, unknown, unstable, or is null or absent; it yields failure when the state is
  dirty or draft; and it yields retry for every other string.
\<close>

theorem checkReady_classification:
  "(mergeable_state pr \<in> {Str ''clean'', Str ''has_hooks'', Str ''unknown'', Str ''unstable'', Null, Undefined}
      \<longrightarrow> fst (checkReady pr s) = Inr Success) \<and>
   (mergeable_state pr \<in> {Str ''dirty'', Str ''draft''} \<longrightarrow> fst (checkReady pr s) = Inr Failure) \<and>
   (\<forall>v. mergeable_state pr = Str v \<and>
        v \<notin> {''clean'', ''has_hooks'', ''unknown'', ''unstable'', ''dirty'', ''draft''}
      \<longrightarrow> fst (checkReady pr s) = Inr Retry)"
  by (auto simp: checkReady_result loose_eq_null_def array_includes_def MAYBE_READY_def NOT_READY_def)

theorem checkReady_classification_witness:
  "fst (checkReady (sample_pr\<lparr>mergeable_state := Str ''unstable''\<rparr>) (init_st ())) = Inr Success \<and>
   fst (checkReady (sample_pr\<lparr>mergeable_state := Null\<rparr>) (init_st ())) = Inr Success \<and>
   fst (checkReady (sample_pr\<lparr>mergeable_state := Str ''draft''\<rparr>) (init_st ())) = Inr Failure \<and>
   fst (checkReady (sample_pr\<lparr>mergeable_state := Str ''blocked''\<rparr>) (init_st ())) = Inr Retry"
  using checkReady_classification [of "sample_pr\<lparr>mergeable_state := Str ''unstable''\<rparr>" "init_st ()"]
    checkReady_classification [of "sample_pr\<lparr>mergeable_state := Null\<rparr>" "init_st ()"]
    checkReady_classification [of "sample_pr\<lparr>mergeable_state := Str ''draft''\<rparr>" "init_st ()"]
    checkReady_classification [of "sample_pr\<lparr>mergeable_state := Str ''blocked''\<rparr>" "init_st ()"]
  by simp

text \<open>
  C2, as stated: a pull request whose mergeable state is absent is classified as retry.
  The code compares with \<^verbatim>\<open>== null\<close>, which holds for an absent property, and answers
  success. Counterexample: the sample pull request without a mergeable state.
\<close>

theorem checkReady_absent_counterexample:
  "fst (checkReady (sample_pr\<lparr>mergeable_state := Undefined\<rparr>) (init_st ())) \<noteq> Inr Retry"
  by (simp add: checkReady_result loose_eq_null_def)

text \<open>
  C2, amended: for every pull request whose mergeable state is absent, the readiness
  classifier yields success (the pull request is taken as probably ready), in every state.
\<close>

theorem checkReady_absent:
  "mergeable_state pr = Undefined \<Longrightarrow> fst (checkReady pr s) = Inr Success"
  by (simp add: checkReady_result loose_eq_null_def)

theorem checkReady_absent_witness:
  "mergeable_state (sample_pr\<lparr>mergeable_state := Undefined\<rparr>) = Undefined \<and>
   fst (checkReady (sample_pr\<lparr>mergeable_state := Undefined\<rparr>) (init_st ())) = Inr Success"
  using checkReady_absent [of "sample_pr\<lparr>mergeable_state := Undefined\<rparr>" "init_st ()"]
  by simp

text \<open>
  C3, as stated: the classifier of a merge error returns failure exactly when the message
  contains "review is required by reviewers with write access", and retry for every other
  message. Counterexample: the message "reviews are required by reviewers with write access"
  does not contain that phrase and is classified as failure.
\<close>

theorem checkMergeError_counterexample:
  "\<not> string_includes ''reviews are required by reviewers with write access''
       ''review is required by reviewers with write access'' \<and>
   fst (checkMergeError (Some (Error (Str ''reviews are required by reviewers with write access'')))
          (init_st ())) = Inr Failure"
  by (simp add: checkMergeError_def error_text_def io_bind_def logger_def io_return_def)

text \<open>
  C3, amended: the classifier returns failure exactly when the error message contains
  "review is required by reviewers with write access" or "reviews are required by reviewers
  with write access", and retry for every other error (an error without a message, or no
  error object at all, counts as the empty message).
\<close>

theorem checkMergeError_classification:
  "fst (checkMergeError e s) =
     Inr (if sublist ''review is required by reviewers with write access'' (error_text e) \<or>
             sublist ''reviews are required by reviewers with write access'' (error_text e)
          then Failure else Retry)"
  by (simp add: checkMergeError_def Let_def string_includes_sublist io_bind_def logger_def io_return_def)

theorem checkMergeError_classification_witness:
  "fst (checkMergeError (Some (Error (Str ''At least 1 approving review is required by reviewers with write access.'')))
          (init_st ())) = Inr Failure \<and>
   fst (checkMergeError (Some (Error (Str ''Base branch was modified''))) (init_st ())) = Inr Retry \<and>
   fst (checkMergeError None (init_st ())) = Inr Retry"
  using checkMergeError_classification
          [of "Some (Error (Str ''At least 1 approving review is required by reviewers with write access.''))" "init_st ()"]
        checkMergeError_classification [of "Some (Error (Str ''Base branch was modified''))" "init_st ()"]
        checkMergeError_classification [of None "init_st ()"]
  by (simp add: error_text_def string_includes_sublist [symmetric])

section \<open>Claims about eligibility\<close>

text \<open>
  C4, as stated: with required check names configured, the pull request is skipped unless
  every required name matches exactly one check run whose conclusion is success.
  Counterexample: the check named ci ran twice and succeeded twice, so the required name
  ci does not match exactly one successful run; the eligibility check does not skip.
\<close>

theorem skipPullRequest_required_checks_counterexample:
  "\<not> matches_exactly_one_success twice_green ''ci'' \<and>
   fst (skipPullRequest (sample_ctx (sample_config\<lparr>mergeRequireStatuses := Some [''ci'']\<rparr>)) sample_pr
          (init_st (sample_world\<lparr>w_checks := Inr (Some twice_green)\<rparr>))) = Inr False"
  by code_simp

text \<open>
  C4, amended: with required check names configured, and the requests for check runs and
  (when approval is required) for reviews answered, the eligibility check skips the pull
  request exactly when one of the other skip conditions holds or some required name matches,
  case-sensitively, no check run of the fetched list, or matches a run whose conclusion is not
  the success value. So it skips unless every required name matches at least one run and
  every run it matches has the conclusion success; how many runs match does not matter.
\<close>

theorem skipPullRequest_required_checks:
  assumes "mergeRequireStatuses (ctx_config ctx) = Some names"
    and "request_check_runs (ctx_octokit ctx) (owner_login (repo (base pr))) (repo_name (repo (base pr)))
           (sha (head pr)) (world s) = (Inr response, w1)"
    and "mergeRequireApproval (ctx_config ctx) \<Longrightarrow>
         request_reviews (ctx_octokit ctx) (owner_login (repo (base pr))) (repo_name (repo (base pr)))
           (number pr) w1 = (Inr reviews, w2)"
  shows "fst (skipPullRequest ctx pr s) =
     Inr (local_skip (ctx_config ctx) pr \<or>
          (\<exists>required\<in>set names.
              (\<forall>run\<in>set (case response of None \<Rightarrow> [] | Some runs \<Rightarrow> runs). check_name run \<noteq> required) \<or>
              (\<exists>run\<in>set (case response of None \<Rightarrow> [] | Some runs \<Rightarrow> runs).
                  check_name run = required \<and> conclusion run \<noteq> Str ''success'')) \<or>
          (mergeRequireApproval (ctx_config ctx) \<and> (\<forall>r\<in>set reviews. review_state r \<noteq> ''APPROVED'')))"
proof -
  let ?checks = "case response of None \<Rightarrow> [] | Some runs \<Rightarrow> runs"
  let ?w2 = "if mergeRequireApproval (ctx_config ctx) then w2 else w1"
  have "run_at (skipPullRequest ctx pr) (world s)
          (Inr (local_skip (ctx_config ctx) pr \<or>
                 (case mergeRequireStatuses (ctx_config ctx) of
                    None \<Rightarrow> False | Some names \<Rightarrow> \<exists>r\<in>set names. check_fails ?checks r) \<or>
                 (mergeRequireApproval (ctx_config ctx) \<and> (\<forall>r\<in>set reviews. review_state r \<noteq> ''APPROVED''))))
          ?w2"
    using assms by (intro skipPullRequest_run) auto
  then show ?thesis
    using assms(1) by (simp add: run_at_def check_fails_def)
qed

theorem skipPullRequest_required_checks_witness:
  "fst (skipPullRequest (sample_ctx (sample_config\<lparr>mergeRequireStatuses := Some [''ci'', ''lint'']\<rparr>)) sample_pr
          (init_st sample_world)) = Inr True \<and>
   fst (skipPullRequest (sample_ctx (sample_config\<lparr>mergeRequireStatuses := Some [''ci'']\<rparr>)) sample_pr
          (init_st (sample_world\<lparr>w_checks := Inr (Some twice_green)\<rparr>))) = Inr False"
  using skipPullRequest_required_checks [of "sample_ctx (sample_config\<lparr>mergeRequireStatuses := Some [''ci'', ''lint'']\<rparr>)"
           "[''ci'', ''lint'']" sample_pr "init_st sample_world"
           "Some [\<lparr>check_name = ''ci'', conclusion = Str ''success''\<rparr>]" sample_world "[]" sample_world]
        skipPullRequest_required_checks [of "sample_ctx (sample_config\<lparr>mergeRequireStatuses := Some [''ci'']\<rparr>)"
           "[''ci'']" sample_pr "init_st (sample_world\<lparr>w_checks := Inr (Some twice_green)\<rparr>)"
           "Some twice_green" "sample_world\<lparr>w_checks := Inr (Some twice_green)\<rparr>" "[]" sample_world]
  by (simp add: sample_octokit_def init_st_def sample_world_def twice_green_def
        local_skip_def sample_ctx_def sample_config_def sample_pr_def sample_repo_def)

section \<open>Claims about the merge operation\<close>

text \<open>
  C7. Whenever the eligibility check reports a skip (\<^verbatim>\<open>skipPullRequest\<close> returns true) and
  the flag \<^verbatim>\<open>failOnMergeSkip\<close> is set, the merge operation throws an error instead of
  returning false; with the flag unset the same skip returns false without throwing. In both
  cases the operation ends in the state the eligibility check left: nothing else is requested.
  The eligibility check does report a skip whenever one of the conditions that need no request
  holds (state not open, already merged, fork with fork merging disabled, a blocking label, a
  missing required label) and neither check runs nor reviews have to be fetched; the theorem
  on required checks gives its result when they are fetched.
\<close>

theorem merge_fail_on_skip:
  "(fst (skipPullRequest ctx pr s) = Inr True \<longrightarrow>
      merge rx ctx pr s =
        (if failOnMergeSkip (ctx_config ctx) then Inl skipped_error else Inr (False, pr),
         snd (skipPullRequest ctx pr s))) \<and>
   (local_skip (ctx_config ctx) pr \<and> mergeRequireStatuses (ctx_config ctx) = None \<and>
    \<not> mergeRequireApproval (ctx_config ctx) \<longrightarrow>
      fst (skipPullRequest ctx pr s) = Inr True)"
proof (intro conjI impI)
  assume "fst (skipPullRequest ctx pr s) = Inr True"
  then have "skipPullRequest ctx pr s = (Inr True, snd (skipPullRequest ctx pr s))"
    by (simp add: prod_eq_iff)
  then show "merge rx ctx pr s =
        (if failOnMergeSkip (ctx_config ctx) then Inl skipped_error else Inr (False, pr),
         snd (skipPullRequest ctx pr s))"
    by (simp add: merge_skip_result)
next
  assume loc: "local_skip (ctx_config ctx) pr \<and> mergeRequireStatuses (ctx_config ctx) = None \<and>
    \<not> mergeRequireApproval (ctx_config ctx)"
  have "run_at (skipPullRequest ctx pr) (world s)
           (Inr (local_skip (ctx_config ctx) pr \<or>
                 (case mergeRequireStatuses (ctx_config ctx) of
                    None \<Rightarrow> False | Some names \<Rightarrow> \<exists>r\<in>set names. check_fails [] r) \<or>
                 (mergeRequireApproval (ctx_config ctx) \<and>
                  (\<forall>r\<in>set ([] :: review list). review_state r \<noteq> ''APPROVED''))))
           (world s)"
    using loc by (intro skipPullRequest_run) simp_all
  then show "fst (skipPullRequest ctx pr s) = Inr True"
    using loc by (simp add: run_at_def)
qed

theorem merge_fail_on_skip_witness:
  "local_skip (ctx_config (sample_ctx sample_config)) closed_pr \<and>
   fst (merge sample_exec (sample_ctx (sample_config\<lparr>failOnMergeSkip := True\<rparr>)) closed_pr (init_st sample_world))
     = Inl skipped_error \<and>
   fst (merge sample_exec (sample_ctx sample_config) closed_pr (init_st sample_world)) = Inr (False, closed_pr)"
proof -
  have l1: "local_skip (ctx_config (sample_ctx sample_config)) closed_pr"
    by (simp add: local_skip_def closed_pr_def sample_pr_def)
  have l2: "local_skip (ctx_config (sample_ctx (sample_config\<lparr>failOnMergeSkip := True\<rparr>))) closed_pr"
    by (simp add: local_skip_def closed_pr_def sample_pr_def)
  have c1: "mergeRequireStatuses (ctx_config (sample_ctx sample_config)) = None"
    "\<not> mergeRequireApproval (ctx_config (sample_ctx sample_config))"
    "mergeRequireStatuses (ctx_config (sample_ctx (sample_config\<lparr>failOnMergeSkip := True\<rparr>))) = None"
    "\<not> mergeRequireApproval (ctx_config (sample_ctx (sample_config\<lparr>failOnMergeSkip := True\<rparr>)))"
    by (simp_all add: sample_ctx_def sample_config_def)
  show ?thesis
    using merge_fail_on_skip [of "sample_ctx (sample_config\<lparr>failOnMergeSkip := True\<rparr>)" closed_pr
            "init_st sample_world" sample_exec]
          merge_fail_on_skip [of "sample_ctx sample_config" closed_pr "init_st sample_world" sample_exec]
          l1 l2 c1
    by (simp add: sample_ctx_def sample_config_def)
qed

text \<open>
  C6, as stated: for every configured extraction pattern that matches the body of the pull
  request without a captured first group, the operation raises the configuration error.
  Counterexample: the pattern "Details" matches the body "Details here" and has no group,
  yet for a closed pull request, and for an open one whose mergeable state is dirty, the
  operation returns false and raises nothing: it leaves before the pattern is applied.
\<close>

theorem merge_pattern_without_group_counterexample:
  "mergeCommitMessageRegex groupless_config = Some ''Details'' \<and>
   sample_exec ''Details'' ''sm'' (body closed_pr) = Match [Some ''Details''] \<and>
   first_group [Some ''Details''] = None \<and>
   fst (merge sample_exec (sample_ctx groupless_config) closed_pr (init_st sample_world)) =
     Inr (False, closed_pr) \<and>
   sample_exec ''Details'' ''sm'' (body (sample_pr\<lparr>mergeable_state := Str ''dirty''\<rparr>)) =
     Match [Some ''Details''] \<and>
   fst (merge sample_exec (sample_ctx groupless_config) (sample_pr\<lparr>mergeable_state := Str ''dirty''\<rparr>)
          (init_st sample_world)) =
     Inr (False, sample_pr\<lparr>mergeable_state := Str ''dirty''\<rparr>)"
  by code_simp

text \<open>
  C6, amended: when the configured extraction pattern matches the body of the pull request
  and the match has no captured first group, no merge call is attempted in the invocation
  and the operation does not return true, whatever else happens; and when the pull request
  is not skipped and the readiness wait succeeds (the eligibility check returned false and
  the readiness wait returned true), so that the extraction step is reached, the operation
  throws the configuration error, in the state the readiness wait left.
\<close>

theorem merge_pattern_without_group:
  fixes ctx :: "'w merge_context" and s :: "'w st"
  assumes "mergeCommitMessageRegex (ctx_config ctx) = Some pattern" and "pattern \<noteq> []"
    and "rx pattern ''sm'' (body pr) = Match m" and "first_group m = None"
  shows "(\<exists>cs. calls (snd (merge rx ctx pr s)) = calls s @ cs \<and> (\<forall>c\<in>set cs. \<not> is_merge_call c)) \<and>
         (\<forall>p. fst (merge rx ctx pr s) \<noteq> Inr (True, p)) \<and>
         (\<forall>s1 s2. skipPullRequest ctx pr s = (Inr False, s1) \<and>
             waitUntilReady (ctx_octokit ctx) pr (mergeRetries (ctx_config ctx)) (mergeRetrySleep (ctx_config ctx))
               (s1\<lparr>logs := logs s1 @
                  [(Info, [LStr (''Merging PR #'' @ string_of_nat (number pr) @ '' '' @ title pr)])]\<rparr>)
               = (Inr True, s2) \<longrightarrow>
             merge rx ctx pr s =
               (Inl (Error (Str (''MERGE_COMMIT_MESSAGE_REGEX must contain a capturing subgroup: '' @ quote pattern))),
                s2))"
proof -
  let ?err = "Error (Str (''MERGE_COMMIT_MESSAGE_REGEX must contain a capturing subgroup: '' @ quote pattern))"
  have rb: "rewrite_body rx (mergeCommitMessageRegex (ctx_config ctx)) pr = (io_throw ?err :: (pull_request, 'w) io)"
    using assms by (simp add: rewrite_body_no_group)
  have "io_spec (\<lambda>c. \<not> is_merge_call c) (\<lambda>_. False)
          (rewrite_body rx (mergeCommitMessageRegex (ctx_config ctx)) pr :: (pull_request, 'w) io)"
    unfolding rb by (rule io_spec_throw)
  then have "io_spec (\<lambda>c. \<not> is_merge_call c)
           (\<lambda>(b, p). (b \<longrightarrow> False \<and> \<not> (truthy (mergeFilterAuthor (ctx_config ctx)) \<and>
                                      Some (user_login p) \<noteq> mergeFilterAuthor (ctx_config ctx))) \<and>
                     (p = pr \<or> False))
           (merge rx ctx pr)"
    by (rule merge_spec [rotated]) simp_all
  from io_spec_apply [OF this, of s]
  have a: "\<exists>cs. calls (snd (merge rx ctx pr s)) = calls s @ cs \<and> (\<forall>c\<in>set cs. \<not> is_merge_call c)"
    and b: "\<forall>p. fst (merge rx ctx pr s) \<noteq> Inr (True, p)"
    by auto
  have c: "merge rx ctx pr s = (Inl ?err, s2)"
    if "skipPullRequest ctx pr s = (Inr False, s1)"
      and "waitUntilReady (ctx_octokit ctx) pr (mergeRetries (ctx_config ctx)) (mergeRetrySleep (ctx_config ctx))
               (s1\<lparr>logs := logs s1 @
                  [(Info, [LStr (''Merging PR #'' @ string_of_nat (number pr) @ '' '' @ title pr)])]\<rparr>)
               = (Inr True, s2)" for s1 s2
    using that by (simp add: merge_def io_bind_def logger_def rb io_throw_def)
  from a b c show ?thesis by blast
qed

theorem merge_pattern_without_group_witness:
  "(\<exists>cs. calls (snd (merge sample_exec (sample_ctx groupless_config) sample_pr (init_st sample_world))) =
          calls (init_st sample_world) @ cs \<and> (\<forall>c\<in>set cs. \<not> is_merge_call c)) \<and>
   fst (merge sample_exec (sample_ctx groupless_config) sample_pr (init_st sample_world)) =
     Inl (Error (Str (''MERGE_COMMIT_MESSAGE_REGEX must contain a capturing subgroup: '' @ quote ''Details'')))"
proof -
  let ?ctx = "sample_ctx groupless_config"
  let ?s0 = "init_st sample_world"
  let ?s1 = "snd (skipPullRequest ?ctx sample_pr ?s0)"
  let ?s1' = "?s1\<lparr>logs := logs ?s1 @
                  [(Info, [LStr (''Merging PR #'' @ string_of_nat (number sample_pr) @ '' '' @ title sample_pr)])]\<rparr>"
  let ?wait = "waitUntilReady (ctx_octokit ?ctx) sample_pr (mergeRetries (ctx_config ?ctx))
                 (mergeRetrySleep (ctx_config ?ctx)) ?s1'"
  have a1: "mergeCommitMessageRegex (ctx_config ?ctx) = Some ''Details''"
    by (simp add: sample_ctx_def groupless_config_def)
  have a3: "sample_exec ''Details'' ''sm'' (body sample_pr) = Match [Some ''Details'']"
    by code_simp
  have a4: "first_group [Some ''Details''] = None"
    by (simp add: first_group_def)
  have k1: "fst (skipPullRequest ?ctx sample_pr ?s0) = Inr False"
    by code_simp
  have k2: "fst ?wait = Inr True"
    by code_simp
  have e1: "skipPullRequest ?ctx sample_pr ?s0 = (Inr False, ?s1)"
    using k1 by (simp add: prod_eq_iff)
  have e2: "?wait = (Inr True, snd ?wait)"
    using k2 by (simp add: prod_eq_iff)
  from merge_pattern_without_group [of ?ctx "''Details''" sample_exec sample_pr "[Some ''Details'']" ?s0, OF a1 _ a3 a4]
    e1 e2
  show ?thesis by auto
qed

text \<open>
  C10. When an author filter is configured and the login of the author differs from it, no
  merge call is attempted and the operation does not return true; and on the path that
  reaches the filter (the eligibility check returned false, the readiness wait returned true
  and the rewriting of the body returned the pull request \<open>pr'\<close>) the operation returns
  false with \<open>pr'\<close>, in the state the readiness wait left, so after the wait and the
  rewriting have run. It does not throw there, whatever the value of \<^verbatim>\<open>failOnMergeSkip\<close>,
  which the statement does not constrain.
\<close>

theorem merge_author_filter:
  fixes ctx :: "'w merge_context" and s :: "'w st"
  assumes "mergeFilterAuthor (ctx_config ctx) = Some author" and "author \<noteq> []"
    and "user_login pr \<noteq> author"
  shows "(\<exists>cs. calls (snd (merge rx ctx pr s)) = calls s @ cs \<and> (\<forall>c\<in>set cs. \<not> is_merge_call c)) \<and>
         (\<forall>p. fst (merge rx ctx pr s) \<noteq> Inr (True, p)) \<and>
         (\<forall>s1 s2 pr'. skipPullRequest ctx pr s = (Inr False, s1) \<and>
             waitUntilReady (ctx_octokit ctx) pr (mergeRetries (ctx_config ctx)) (mergeRetrySleep (ctx_config ctx))
               (s1\<lparr>logs := logs s1 @
                  [(Info, [LStr (''Merging PR #'' @ string_of_nat (number pr) @ '' '' @ title pr)])]\<rparr>)
               = (Inr True, s2) \<and>
             fst (rewrite_body rx (mergeCommitMessageRegex (ctx_config ctx)) pr s2) = Inr pr' \<longrightarrow>
             merge rx ctx pr s = (Inr (False, pr'), s2))"
proof -
  have mismatch: "truthy (mergeFilterAuthor (ctx_config ctx)) \<and>
       Some (user_login p) \<noteq> mergeFilterAuthor (ctx_config ctx)" if "user_login p = user_login pr" for p
    using assms that by (simp add: truthy_def)
  have "io_spec (\<lambda>c. \<not> is_merge_call c)
           (\<lambda>(b, p). (b \<longrightarrow> user_login p = user_login pr \<and>
                \<not> (truthy (mergeFilterAuthor (ctx_config ctx)) \<and>
                   Some (user_login p) \<noteq> mergeFilterAuthor (ctx_config ctx))) \<and>
                     (p = pr \<or> user_login p = user_login pr))
           (merge rx ctx pr :: (bool \<times> pull_request, 'w) io)"
    by (rule merge_spec [rotated, OF rewrite_body_keeps_author]) (use mismatch in blast)+
  from io_spec_apply [OF this, of s]
  have a: "\<exists>cs. calls (snd (merge rx ctx pr s)) = calls s @ cs \<and> (\<forall>c\<in>set cs. \<not> is_merge_call c)"
    and b: "\<forall>p. fst (merge rx ctx pr s) \<noteq> Inr (True, p)"
    using mismatch by auto
  have c: "merge rx ctx pr s = (Inr (False, pr'), s2)"
    if sk: "skipPullRequest ctx pr s = (Inr False, s1)"
      and wt: "waitUntilReady (ctx_octokit ctx) pr (mergeRetries (ctx_config ctx)) (mergeRetrySleep (ctx_config ctx))
               (s1\<lparr>logs := logs s1 @
                  [(Info, [LStr (''Merging PR #'' @ string_of_nat (number pr) @ '' '' @ title pr)])]\<rparr>)
               = (Inr True, s2)"
      and rw: "fst (rewrite_body rx (mergeCommitMessageRegex (ctx_config ctx)) pr s2) = Inr pr'" for s1 s2 pr'
  proof -
    have rw': "rewrite_body rx (mergeCommitMessageRegex (ctx_config ctx)) pr s2 = (Inr pr', s2)"
      using rw rewrite_body_state [of rx "mergeCommitMessageRegex (ctx_config ctx)" pr s2]
      by (simp add: prod_eq_iff)
    have "user_login pr' = user_login pr"
      using io_spec_apply [OF rewrite_body_keeps_author, of rx "mergeCommitMessageRegex (ctx_config ctx)" pr s2] rw
      by simp
    from mismatch [OF this] show ?thesis
      using sk wt rw' by (simp add: merge_def io_bind_def logger_def io_return_def)
  qed
  from a b c show ?thesis by blast
qed

theorem merge_author_filter_witness:
  "(\<exists>cs. calls (snd (merge sample_exec (sample_ctx filtering_config) sample_pr (init_st sample_world))) =
          calls (init_st sample_world) @ cs \<and> (\<forall>c\<in>set cs. \<not> is_merge_call c)) \<and>
   fst (merge sample_exec (sample_ctx filtering_config) sample_pr (init_st sample_world)) = Inr (False, sample_pr)"
proof -
  let ?ctx = "sample_ctx filtering_config"
  let ?s0 = "init_st sample_world"
  let ?s1 = "snd (skipPullRequest ?ctx sample_pr ?s0)"
  let ?s1' = "?s1\<lparr>logs := logs ?s1 @
                  [(Info, [LStr (''Merging PR #'' @ string_of_nat (number sample_pr) @ '' '' @ title sample_pr)])]\<rparr>"
  let ?wait = "waitUntilReady (ctx_octokit ?ctx) sample_pr (mergeRetries (ctx_config ?ctx))
                 (mergeRetrySleep (ctx_config ?ctx)) ?s1'"
  have a1: "mergeFilterAuthor (ctx_config ?ctx) = Some ''bob''"
    by (simp add: sample_ctx_def filtering_config_def)
  have a3: "user_login sample_pr \<noteq> ''bob''"
    by (simp add: sample_pr_def)
  have k1: "fst (skipPullRequest ?ctx sample_pr ?s0) = Inr False"
    by code_simp
  have k2: "fst ?wait = Inr True"
    by code_simp
  have k3: "fst (rewrite_body sample_exec (mergeCommitMessageRegex (ctx_config ?ctx)) sample_pr (snd ?wait)) = Inr sample_pr"
    by (simp add: rewrite_body_def sample_ctx_def filtering_config_def sample_config_def io_return_def)
  have e1: "skipPullRequest ?ctx sample_pr ?s0 = (Inr False, ?s1)"
    using k1 by (simp add: prod_eq_iff)
  have e2: "?wait = (Inr True, snd ?wait)"
    using k2 by (simp add: prod_eq_iff)
  from merge_author_filter [of ?ctx "''bob''" sample_pr sample_exec ?s0, OF a1 _ a3] e1 e2 k3
  show ?thesis by auto
qed

text \<open>
  C8. After a merge that succeeded (the eligibility check returned false, the readiness wait
  returned true, the author filter let the pull request pass and \<^verbatim>\<open>tryMerge\<close> returned
  true), the operation returns true whatever the results \<open>rl\<close> of the label removal and
  \<open>rb\<close> of the branch deletion are. A failure of the label removal is logged, and the branch
  deletion, when configured, then runs from the state with that log entry; a failure of the
  branch deletion is logged as well. The final state is the one the last cleanup step left.
\<close>

theorem merge_cleanup_best_effort:
  fixes ctx :: "'w merge_context" and s :: "'w st"
  assumes skip: "skipPullRequest ctx pr s = (Inr False, s1)"
    and ready: "waitUntilReady (ctx_octokit ctx) pr (mergeRetries (ctx_config ctx)) (mergeRetrySleep (ctx_config ctx))
               (s1\<lparr>logs := logs s1 @
                  [(Info, [LStr (''Merging PR #'' @ string_of_nat (number pr) @ '' '' @ title pr)])]\<rparr>)
               = (Inr True, s2)"
    and rewrite: "fst (rewrite_body rx (mergeCommitMessageRegex (ctx_config ctx)) pr s2) = Inr pr'"
    and author: "\<not> (truthy (mergeFilterAuthor (ctx_config ctx)) \<and>
                    Some (user_login pr') \<noteq> mergeFilterAuthor (ctx_config ctx))"
    and merged: "tryMerge (ctx_octokit ctx) pr' (sha (head pr)) (mergeMethod (ctx_config ctx))
                   (mergeRetries (ctx_config ctx)) (mergeRetrySleep (ctx_config ctx))
                   (getCommitMessage (mergeCommitMessage (ctx_config ctx)) pr') s2 = (Inr True, s3)"
    and labels: "removeLabels (ctx_octokit ctx) pr' (mergeRemoveLabels (ctx_config ctx))
                   (s3\<lparr>logs := logs s3 @ [(Info, [LStr ''PR successfully merged!''])]\<rparr>) = (rl, s4)"
    and branch: "deleteBranch (ctx_octokit ctx) pr'
                   (case rl of
                      Inl e \<Rightarrow> s4\<lparr>logs := logs s4 @ [(Info, [LStr ''Failed to remove labels:'', LVal (message e)])]\<rparr>
                    | Inr _ \<Rightarrow> s4) = (rb, s5)"
  shows "merge rx ctx pr s =
           (Inr (True, pr'),
            if mergeDeleteBranch (ctx_config ctx)
            then (case rb of
                    Inl e \<Rightarrow> s5\<lparr>logs := logs s5 @ [(Info, [LStr ''Failed to delete branch:'', LVal (message e)])]\<rparr>
                  | Inr _ \<Rightarrow> s5)
            else (case rl of
                    Inl e \<Rightarrow> s4\<lparr>logs := logs s4 @ [(Info, [LStr ''Failed to remove labels:'', LVal (message e)])]\<rparr>
                  | Inr _ \<Rightarrow> s4))"
proof -
  have rw: "rewrite_body rx (mergeCommitMessageRegex (ctx_config ctx)) pr s2 = (Inr pr', s2)"
    using rewrite rewrite_body_state [of rx "mergeCommitMessageRegex (ctx_config ctx)" pr s2]
    by (simp add: prod_eq_iff)
  show ?thesis
    using skip ready rw author merged labels branch
    by (cases rl; cases rb)
       (simp_all add: merge_def io_bind_def io_catch_def logger_def io_return_def)
qed

theorem merge_cleanup_best_effort_witness:
  "fst (merge sample_exec (sample_ctx sample_config) sample_pr (init_st failing_cleanup_world)) = Inr (True, sample_pr) \<and>
   (Info, [LStr ''Failed to remove labels:'', LVal (Str ''Label does not exist'')])
     \<in> set (logs (snd (merge sample_exec (sample_ctx sample_config) sample_pr (init_st failing_cleanup_world)))) \<and>
   (Info, [LStr ''Failed to delete branch:'', LVal (Str ''Reference does not exist'')])
     \<in> set (logs (snd (merge sample_exec (sample_ctx sample_config) sample_pr (init_st failing_cleanup_world)))) \<and>
   ReposGetBranch ''acme'' ''app'' ''feature''
     \<in> set (calls (snd (merge sample_exec (sample_ctx sample_config) sample_pr (init_st failing_cleanup_world))))"
proof -
  let ?ctx = "sample_ctx sample_config"
  let ?cfg = "ctx_config ?ctx"
  let ?s0 = "init_st failing_cleanup_world"
  let ?s1 = "snd (skipPullRequest ?ctx sample_pr ?s0)"
  let ?s1' = "?s1\<lparr>logs := logs ?s1 @
                  [(Info, [LStr (''Merging PR #'' @ string_of_nat (number sample_pr) @ '' '' @ title sample_pr)])]\<rparr>"
  let ?wait = "waitUntilReady (ctx_octokit ?ctx) sample_pr (mergeRetries ?cfg) (mergeRetrySleep ?cfg) ?s1'"
  let ?s2 = "snd ?wait"
  let ?mrg = "tryMerge (ctx_octokit ?ctx) sample_pr (sha (head sample_pr)) (mergeMethod ?cfg)
                (mergeRetries ?cfg) (mergeRetrySleep ?cfg) (getCommitMessage (mergeCommitMessage ?cfg) sample_pr) ?s2"
  let ?s3 = "snd ?mrg"
  let ?rm = "removeLabels (ctx_octokit ?ctx) sample_pr (mergeRemoveLabels ?cfg)
               (?s3\<lparr>logs := logs ?s3 @ [(Info, [LStr ''PR successfully merged!''])]\<rparr>)"
  let ?s4 = "snd ?rm"
  let ?s4' = "case fst ?rm of
                Inl e \<Rightarrow> ?s4\<lparr>logs := logs ?s4 @ [(Info, [LStr ''Failed to remove labels:'', LVal (message e)])]\<rparr>
              | Inr _ \<Rightarrow> ?s4"
  let ?del = "deleteBranch (ctx_octokit ?ctx) sample_pr ?s4'"
  let ?final = "case fst ?del of
                  Inl e \<Rightarrow> (snd ?del)\<lparr>logs := logs (snd ?del) @
                             [(Info, [LStr ''Failed to delete branch:'', LVal (message e)])]\<rparr>
                | Inr _ \<Rightarrow> snd ?del"
  have k1: "fst (skipPullRequest ?ctx sample_pr ?s0) = Inr False" by code_simp
  have k2: "fst ?wait = Inr True" by code_simp
  have k3: "fst (rewrite_body sample_exec (mergeCommitMessageRegex ?cfg) sample_pr ?s2) = Inr sample_pr"
    by (simp add: rewrite_body_def sample_ctx_def sample_config_def io_return_def)
  have k4: "\<not> (truthy (mergeFilterAuthor ?cfg) \<and> Some (user_login sample_pr) \<noteq> mergeFilterAuthor ?cfg)"
    by (simp add: truthy_def sample_ctx_def sample_config_def)
  have k5: "fst ?mrg = Inr True" by code_simp
  have k6: "mergeDeleteBranch ?cfg" by (simp add: sample_ctx_def sample_config_def)
  have e1: "skipPullRequest ?ctx sample_pr ?s0 = (Inr False, ?s1)" using k1 by (simp add: prod_eq_iff)
  have e2: "?wait = (Inr True, ?s2)" using k2 by (simp add: prod_eq_iff)
  have e5: "?mrg = (Inr True, ?s3)" using k5 by (simp add: prod_eq_iff)
  have e6: "?rm = (fst ?rm, ?s4)" by simp
  have e7: "?del = (fst ?del, snd ?del)" by simp
  have m: "merge sample_exec ?ctx sample_pr ?s0 = (Inr (True, sample_pr), ?final)"
    using merge_cleanup_best_effort [OF e1 e2 k3 k4 e5 e6 e7] k6 by simp
  have l1: "(Info, [LStr ''Failed to remove labels:'', LVal (Str ''Label does not exist'')]) \<in> set (logs ?final)"
    by code_simp
  have l2: "(Info, [LStr ''Failed to delete branch:'', LVal (Str ''Reference does not exist'')]) \<in> set (logs ?final)"
    by code_simp
  have l3: "ReposGetBranch ''acme'' ''app'' ''feature'' \<in> set (calls ?final)"
    by code_simp
  show ?thesis using l1 l2 l3 by (simp only: m fst_conv snd_conv simp_thms)
qed

text \<open>
  C5, as stated: the extraction pattern is applied to the body with case-insensitive,
  multiline and dot-all matching. Counterexample: the body starts with "Summary:" and the
  pattern is "summary:(.*)". Matching without regard to case finds the group, but the
  code passes the flags \<^verbatim>\<open>"sm"\<close>: there is no match, the body stays as it is, and the
  merge call carries the whole body as commit title (mode pull-request-description).
\<close>

theorem merge_extracts_body_counterexample:
  "sample_exec ''summary:(.*)'' ''ism'' (body summary_pr) =
     Match [Some ''Summary:   faster merges  '', Some ''   faster merges  ''] \<and>
   sample_exec ''summary:(.*)'' ''sm'' (body summary_pr) = NoMatch \<and>
   fst (merge sample_exec (sample_ctx (extracting_config ''summary:(.*)'')) summary_pr (init_st sample_world)) =
     Inr (True, summary_pr) \<and>
   PullsMerge ''acme'' ''app'' 42 (Str ''Summary:   faster merges  '') [] ''abc123'' ''squash''
     \<in> set (calls (snd (merge sample_exec (sample_ctx (extracting_config ''summary:(.*)'')) summary_pr
                          (init_st sample_world))))"
  by code_simp

text \<open>
  C5, amended: when an extraction pattern is configured, it is applied to the body of the
  pull request with the flags \<^verbatim>\<open>"sm"\<close> (multiline and dot-all matching, case-sensitive);
  on a match whose first capturing group took part, the body is replaced by the trimmed
  text of that group before the commit message is composed: every merge call of the
  invocation carries the commit title composed from the pull request with the new body, and
  an operation that returns true returns that pull request. Only the answer of the engine
  under the flags \<^verbatim>\<open>"sm"\<close> matters.
\<close>

theorem merge_extracts_body:
  fixes ctx :: "'w merge_context" and s :: "'w st"
  assumes "mergeCommitMessageRegex (ctx_config ctx) = Some pattern" and "pattern \<noteq> []"
    and "rx pattern ''sm'' (body pr) = Match m" and "first_group m = Some g"
  shows "rewrite_body rx (mergeCommitMessageRegex (ctx_config ctx)) pr s = (Inr (pr\<lparr>body := js_trim g\<rparr>), s) \<and>
         (\<exists>cs. calls (snd (merge rx ctx pr s)) = calls s @ cs \<and>
            (\<forall>c\<in>set cs. is_merge_call c \<longrightarrow>
               c = PullsMerge (owner_login (repo (base pr))) (repo_name (repo (base pr))) (number pr)
                     (getCommitMessage (mergeCommitMessage (ctx_config ctx)) (pr\<lparr>body := js_trim g\<rparr>)) []
                     (sha (head pr)) (mergeMethod (ctx_config ctx)))) \<and>
         (\<forall>p. fst (merge rx ctx pr s) = Inr (True, p) \<longrightarrow> p = pr\<lparr>body := js_trim g\<rparr>) \<and>
         (\<forall>rx'. rx' pattern ''sm'' (body pr) = rx pattern ''sm'' (body pr) \<longrightarrow>
                merge rx' ctx pr s = merge rx ctx pr s)"
proof -
  let ?pr' = "pr\<lparr>body := js_trim g\<rparr>"
  let ?call = "PullsMerge (owner_login (repo (base pr))) (repo_name (repo (base pr))) (number pr)
                     (getCommitMessage (mergeCommitMessage (ctx_config ctx)) ?pr') []
                     (sha (head pr)) (mergeMethod (ctx_config ctx))"
  have rb: "rewrite_body rx (mergeCommitMessageRegex (ctx_config ctx)) pr = (io_return ?pr' :: (pull_request, 'w) io)"
    using assms by (simp add: rewrite_body_group)
  have a: "rewrite_body rx (mergeCommitMessageRegex (ctx_config ctx)) pr s = (Inr ?pr', s)"
    by (simp add: rb io_return_def)
  have "io_spec (\<lambda>c. is_merge_call c \<longrightarrow> c = ?call) (\<lambda>p. p = ?pr')
          (rewrite_body rx (mergeCommitMessageRegex (ctx_config ctx)) pr :: (pull_request, 'w) io)"
    unfolding rb by (rule io_spec_return) simp
  then have "io_spec (\<lambda>c. is_merge_call c \<longrightarrow> c = ?call)
           (\<lambda>(b, p). (b \<longrightarrow> p = ?pr' \<and> \<not> (truthy (mergeFilterAuthor (ctx_config ctx)) \<and>
                                      Some (user_login p) \<noteq> mergeFilterAuthor (ctx_config ctx))) \<and>
                     (p = pr \<or> p = ?pr'))
           (merge rx ctx pr)"
    by (rule merge_spec [rotated]) simp_all
  from io_spec_apply [OF this, of s]
  have b: "\<exists>cs. calls (snd (merge rx ctx pr s)) = calls s @ cs \<and> (\<forall>c\<in>set cs. is_merge_call c \<longrightarrow> c = ?call)"
    and c: "\<forall>p. fst (merge rx ctx pr s) = Inr (True, p) \<longrightarrow> p = ?pr'"
    by auto
  have d: "merge rx' ctx pr s = merge rx ctx pr s" if "rx' pattern ''sm'' (body pr) = rx pattern ''sm'' (body pr)" for rx'
  proof -
    have "rewrite_body rx' (mergeCommitMessageRegex (ctx_config ctx)) pr
            = (rewrite_body rx (mergeCommitMessageRegex (ctx_config ctx)) pr :: (pull_request, 'w) io)"
      using assms(1) that by (simp add: rewrite_body_def)
    then show ?thesis by (simp only: merge_def)
  qed
  from a b c d show ?thesis by blast
qed

theorem merge_extracts_body_witness:
  "rewrite_body sample_exec (Some ''Summary:(.*)'') summary_pr (init_st sample_world) =
     (Inr (summary_pr\<lparr>body := ''faster merges''\<rparr>), init_st sample_world) \<and>
   (\<exists>cs. calls (snd (merge sample_exec (sample_ctx (extracting_config ''Summary:(.*)'')) summary_pr
                        (init_st sample_world))) = calls (init_st sample_world) @ cs \<and>
      (\<forall>c\<in>set cs. is_merge_call c \<longrightarrow>
          c = PullsMerge ''acme'' ''app'' 42 (Str ''faster merges'') [] ''abc123'' ''squash''))"
proof -
  let ?ctx = "sample_ctx (extracting_config ''Summary:(.*)'')"
  have a1: "mergeCommitMessageRegex (ctx_config ?ctx) = Some ''Summary:(.*)''"
    by (simp add: sample_ctx_def extracting_config_def)
  have a3: "sample_exec ''Summary:(.*)'' ''sm'' (body summary_pr) =
              Match [Some ''Summary:   faster merges  '', Some ''   faster merges  '']"
    by code_simp
  have a4: "first_group [Some ''Summary:   faster merges  '', Some ''   faster merges  ''] = Some ''   faster merges  ''"
    by (simp add: first_group_def)
  have t: "js_trim ''   faster merges  '' = ''faster merges''"
    by code_simp
  have g: "getCommitMessage (mergeCommitMessage (ctx_config ?ctx)) (summary_pr\<lparr>body := ''faster merges''\<rparr>)
             = Str ''faster merges''"
    by (simp add: getCommitMessage_def sample_ctx_def extracting_config_def)
  have f: "owner_login (repo (base summary_pr)) = ''acme''" "repo_name (repo (base summary_pr)) = ''app''"
    "number summary_pr = 42" "sha (head summary_pr) = ''abc123''" "mergeMethod (ctx_config ?ctx) = ''squash''"
    by (simp_all add: summary_pr_def sample_pr_def sample_repo_def sample_ctx_def extracting_config_def
          sample_config_def)
  have a2: "''Summary:(.*)'' \<noteq> []"
    by simp
  note th = merge_extracts_body [where ctx = "?ctx" and pattern = "''Summary:(.*)''" and rx = sample_exec
      and pr = summary_pr and m = "[Some ''Summary:   faster merges  '', Some ''   faster merges  '']"
      and g = "''   faster merges  ''" and s = "init_st sample_world", OF a1 a2 a3 a4]
  have p1: "rewrite_body sample_exec (mergeCommitMessageRegex (ctx_config ?ctx)) summary_pr (init_st sample_world) =
              (Inr (summary_pr\<lparr>body := js_trim ''   faster merges  ''\<rparr>), init_st sample_world)"
    by (rule conjunct1 [OF th])
  have p2: "\<exists>cs. calls (snd (merge sample_exec ?ctx summary_pr (init_st sample_world))) =
                  calls (init_st sample_world) @ cs \<and>
            (\<forall>c\<in>set cs. is_merge_call c \<longrightarrow>
               c = PullsMerge (owner_login (repo (base summary_pr))) (repo_name (repo (base summary_pr)))
                     (number summary_pr)
                     (getCommitMessage (mergeCommitMessage (ctx_config ?ctx))
                        (summary_pr\<lparr>body := js_trim ''   faster merges  ''\<rparr>)) []
                     (sha (head summary_pr)) (mergeMethod (ctx_config ?ctx)))"
    by (rule conjunct1 [OF conjunct2 [OF th]])
  show ?thesis using p1 p2 by (simp only: a1 t g f)
qed

section \<open>The claim about commit message composition\<close>

text \<open>
  C9 states that in template mode every placeholder is replaced by the value of the field.
  The code passes the value to \<^verbatim>\<open>String.prototype.replace\<close> as replacement string, where
  a dollar sign is special: with the template "{pullRequest.title}" and a title that
  contains two dollar signs in a row, the composed message has one dollar sign only and so is
  not the title.
\<close>

theorem getCommitMessage_dollar_pattern:
  "getCommitMessage ''{pullRequest.title}'' (sample_pr\<lparr>title := ''Price $$5''\<rparr>) = Str ''Price $5'' \<and>
   Str ''Price $5'' \<noteq> Str (title (sample_pr\<lparr>title := ''Price $$5''\<rparr>))"
  by code_simp

text \<open>
  The four fixed modes of \<^verbatim>\<open>getCommitMessage\<close>: no override for automatic, the title, the
  body, and the title, an empty line and the body.
\<close>

theorem getCommitMessage_fixed_modes:
  "getCommitMessage ''automatic'' pr = Undefined \<and>
   getCommitMessage ''pull-request-title'' pr = Str (title pr) \<and>
   getCommitMessage ''pull-request-description'' pr = Str (body pr) \<and>
   getCommitMessage ''pull-request-title-and-description'' pr = Str (title pr @ [CHR 0x0A, CHR 0x0A] @ body pr)"
  by (simp add: getCommitMessage_def)

text \<open>
  The examples of the spec: title and description of the sample pull request, and a template
  with the number and the title, where every occurrence of a placeholder is replaced.
\<close>

theorem getCommitMessage_examples:
  "getCommitMessage ''pull-request-title-and-description'' (sample_pr\<lparr>title := ''Fix bug''\<rparr>) =
     Str (''Fix bug'' @ [CHR 0x0A, CHR 0x0A] @ ''Details here'') \<and>
   getCommitMessage ''PR #{pullRequest.number}: {pullRequest.title}'' sample_pr = Str ''PR #42: Add feature'' \<and>
   getCommitMessage ''{pullRequest.title} ({pullRequest.title}) #{pullRequest.number}'' sample_pr =
     Str ''Add feature (Add feature) #42''"
  by code_simp

section \<open>Further properties of eligibility and cleanup\<close>

text \<open>
  A pull request that meets one of the skip conditions that need no request (its state is
  not open, it is merged, it comes from a fork while fork merging is disabled, it has a
  blocking label or lacks a required one) is never found eligible, whatever the other
  fields, the configuration and the answers of the remote service are: the eligibility
  check does not return false.
\<close>

theorem skipPullRequest_local_condition:
  assumes loc: "local_skip (ctx_config ctx) pr"
  shows "fst (skipPullRequest ctx pr s) \<noteq> Inr False"
proof
  assume r: "fst (skipPullRequest ctx pr s) = Inr False"
  let ?cfg = "ctx_config ctx"
  let ?b1 = "state pr \<noteq> ''open''"
  let ?b2 = "?b1 \<or> merged pr"
  let ?b3 = "?b2 \<or> (full_name (repo (head pr)) \<noteq> full_name (repo (base pr)) \<and> \<not> mergeForks ?cfg)"
  let ?b4 = "?b3 \<or> (\<exists>l\<in>set (labels pr). label_name l \<in> set (mergeLabels_blocking ?cfg))"
  let ?b5 = "?b4 \<or> (\<exists>r\<in>set (mergeLabels_required ?cfg). r \<notin> set (map label_name (labels pr)))"
  let ?S1 = "if state pr \<noteq> ''open''
              then io_bind (logger Info [LStr ''Skipping PR merge, state is not open:'', LStr (state pr)])
                     (\<lambda>_. io_return True)
              else io_return False"
  let ?S2 = "\<lambda>skip1. if merged pr
              then io_bind (logger Info [LStr ''Skipping PR merge, already merged!'']) (\<lambda>_. io_return True)
              else io_return skip1"
  let ?S3 = "\<lambda>skip2. if full_name (repo (head pr)) \<noteq> full_name (repo (base pr))
              then (if \<not> mergeForks ?cfg
                    then io_bind (logger Info [LStr ''PR is a fork and MERGE_FORKS is false, skipping merge''])
                           (\<lambda>_. io_return True)
                    else io_return skip2)
              else io_return skip2"
  let ?S4 = "\<lambda>skip3. blocking_loop (mergeLabels_blocking ?cfg) (labels pr) skip3"
  let ?S5 = "\<lambda>skip4. required_loop (map label_name (labels pr)) (mergeLabels_required ?cfg) skip4"
  let ?T = "\<lambda>skip5. io_bind (case mergeRequireStatuses ?cfg of
                None \<Rightarrow> io_return skip5
              | Some requiredNames \<Rightarrow>
                  io_bind (fetchChecks ctx pr) (\<lambda>checks. statuses_loop checks requiredNames skip5))
       (\<lambda>skip6.
     if mergeRequireApproval ?cfg
     then io_bind (fetchReviews ctx pr) (\<lambda>approvals.
            if count_approvals approvals 0 = 0
            then io_bind (logger Info [LStr ''Skipping PR merge, require approval but none found''])
                   (\<lambda>_. io_return True)
            else io_bind (logger Debug [LStr ''Found'', LNum (count_approvals approvals 0), LStr ''approval(s)''])
                   (\<lambda>_. io_return skip6))
     else io_return skip6)"
  have s1: "run_at ?S1 w (Inr ?b1) w" for w :: 'a
    by (simp add: run_at_def io_bind_def logger_def io_return_def)
  have s2: "run_at (?S2 ?b1) w (Inr ?b2) w" for w :: 'a
    by (simp add: run_at_def io_bind_def logger_def io_return_def)
  have s3: "run_at (?S3 ?b2) w (Inr ?b3) w" for w :: 'a
    by (simp add: run_at_def io_bind_def logger_def io_return_def)
  have s4: "run_at (?S4 ?b3) w (Inr ?b4) w" for w :: 'a
    by (rule blocking_loop_run)
  have s5: "run_at (?S5 ?b4) w (Inr ?b5) w" for w :: 'a
    by (rule required_loop_run)
  have b5: ?b5 using loc unfolding local_skip_def by blast
  have t5: "y" if "fst (?T ?b5 t) = Inr y" for t y
    using that b5 by (rule skip_tail_keeps)
  have t4: "y" if "fst (io_bind (?S5 ?b4) ?T t) = Inr y" for t y
    by (rule run_at_post [OF s5 t5 refl that])
  have t3: "y" if "fst (io_bind (?S4 ?b3) (\<lambda>skip4. io_bind (?S5 skip4) ?T) t) = Inr y" for t y
    by (rule run_at_post [OF s4 t4 refl that])
  have t2: "y" if "fst (io_bind (?S3 ?b2) (\<lambda>skip3. io_bind (?S4 skip3) (\<lambda>skip4. io_bind (?S5 skip4) ?T)) t) = Inr y"
    for t y
    by (rule run_at_post [OF s3 t3 refl that])
  have t1: "y" if "fst (io_bind (?S2 ?b1) (\<lambda>skip2. io_bind (?S3 skip2) (\<lambda>skip3. io_bind (?S4 skip3)
                      (\<lambda>skip4. io_bind (?S5 skip4) ?T))) t) = Inr y" for t y
    by (rule run_at_post [OF s2 t2 refl that])
  show False
    by (rule run_at_post [OF s1 t1 refl r [unfolded skipPullRequest_def]])
qed

theorem skipPullRequest_local_condition_witness:
  "fst (skipPullRequest (sample_ctx (sample_config\<lparr>mergeRequireStatuses := Some [''ci''],
           mergeRequireApproval := True\<rparr>)) closed_pr (init_st sample_world)) \<noteq> Inr False"
proof -
  have "local_skip (ctx_config (sample_ctx (sample_config\<lparr>mergeRequireStatuses := Some [''ci''],
           mergeRequireApproval := True\<rparr>))) closed_pr"
    by (simp add: local_skip_def closed_pr_def sample_pr_def)
  then show ?thesis by (rule skipPullRequest_local_condition)
qed

text \<open>
  When the head and the base repository of the pull request differ, the branch deletion
  sends no request at all, so neither reads the branch (and its protection) nor deletes it:
  it logs that the branch is from an external repository and returns.
\<close>

theorem deleteBranch_fork:
  assumes "full_name (repo (head pr)) \<noteq> full_name (repo (base pr))"
  shows "deleteBranch octokit pr s =
           (Inr (), s\<lparr>logs := logs s @ [(Info, [LStr ''Branch is from external repository, skipping delete''])]\<rparr>)"
  using assms by (simp add: deleteBranch_def logger_def)

theorem deleteBranch_fork_witness:
  "calls (snd (deleteBranch sample_octokit fork_pr (init_st sample_world))) = []"
  using deleteBranch_fork [of fork_pr sample_octokit "init_st sample_world"]
  by (simp add: fork_pr_def sample_pr_def sample_repo_def init_st_def)

end
